theory Spec2Isabelle
  imports Complex_Main
begin

section \<open>Numbers\<close>

text \<open>
  The program computes with JavaScript numbers. For adding to and merging positions they
  are modelled as exact reals extended with the three non-finite values of IEEE 754
  (\<open>Infinity\<close>, \<open>-Infinity\<close>, \<open>NaN\<close>). Rounding and overflow of finite results are
  outside this model, and there is a single zero, which divides like \<open>+0\<close> (the zero
  that \<open>x + (-x)\<close> produces). The valuation, whose totals depend on the rounding, is
  modelled over the operations of the language as parameters, with the binary64
  arithmetic as an instance (subsection Valuation).
\<close>

datatype jsnum = Fin real | PInf | NInf | NaN

fun is_finite :: "jsnum \<Rightarrow> bool" where
  "is_finite (Fin a) = True"
| "is_finite PInf = False"
| "is_finite NInf = False"
| "is_finite NaN = False"

fun js_neg :: "jsnum \<Rightarrow> jsnum" where
  "js_neg (Fin a) = Fin (- a)"
| "js_neg PInf = NInf"
| "js_neg NInf = PInf"
| "js_neg NaN = NaN"

fun js_add :: "jsnum \<Rightarrow> jsnum \<Rightarrow> jsnum" where
  "js_add (Fin a) (Fin b) = Fin (a + b)"
| "js_add (Fin a) PInf = PInf"
| "js_add (Fin a) NInf = NInf"
| "js_add PInf (Fin b) = PInf"
| "js_add PInf PInf = PInf"
| "js_add PInf NInf = NaN"
| "js_add NInf (Fin b) = NInf"
| "js_add NInf PInf = NaN"
| "js_add NInf NInf = NInf"
| "js_add NaN y = NaN"
| "js_add x NaN = NaN"

definition js_sub :: "jsnum \<Rightarrow> jsnum \<Rightarrow> jsnum" where
  "js_sub x y = js_add x (js_neg y)"

fun js_mul :: "jsnum \<Rightarrow> jsnum \<Rightarrow> jsnum" where
  "js_mul (Fin a) (Fin b) = Fin (a * b)"
| "js_mul (Fin a) PInf = (if a = 0 then NaN else if 0 < a then PInf else NInf)"
| "js_mul (Fin a) NInf = (if a = 0 then NaN else if 0 < a then NInf else PInf)"
| "js_mul PInf (Fin b) = (if b = 0 then NaN else if 0 < b then PInf else NInf)"
| "js_mul NInf (Fin b) = (if b = 0 then NaN else if 0 < b then NInf else PInf)"
| "js_mul PInf PInf = PInf"
| "js_mul PInf NInf = NInf"
| "js_mul NInf PInf = NInf"
| "js_mul NInf NInf = PInf"
| "js_mul NaN y = NaN"
| "js_mul x NaN = NaN"

fun js_div :: "jsnum \<Rightarrow> jsnum \<Rightarrow> jsnum" where
  "js_div (Fin a) (Fin b) =
     (if b = 0 then (if a = 0 then NaN else if 0 < a then PInf else NInf)
      else Fin (a / b))"
| "js_div (Fin a) PInf = Fin 0"
| "js_div (Fin a) NInf = Fin 0"
| "js_div PInf (Fin b) = (if 0 \<le> b then PInf else NInf)"
| "js_div NInf (Fin b) = (if 0 \<le> b then NInf else PInf)"
| "js_div PInf PInf = NaN"
| "js_div PInf NInf = NaN"
| "js_div NInf PInf = NaN"
| "js_div NInf NInf = NaN"
| "js_div NaN y = NaN"
| "js_div x NaN = NaN"

section \<open>Strings\<close>

text \<open>
  Strings are lists of characters. \<open>startsWith\<close>, \<open>includes\<close> (here
  \<open>includes_str\<close>), \<open>split\<close> and \<open>toLowerCase\<close> are the methods of
  \<open>String.prototype\<close> the formatter calls;
  \<open>split\<close> is modelled for a separator of one character, the only way it is called,
  and \<open>toLowerCase\<close> on the letters A to Z.
\<close>

definition startsWith :: "string \<Rightarrow> string \<Rightarrow> bool" where
  "startsWith s p = (take (length p) s = p)"

fun includes_str :: "string \<Rightarrow> string \<Rightarrow> bool" where
  "includes_str [] p = (p = [])"
| "includes_str (c # cs) p = (startsWith (c # cs) p \<or> includes_str cs p)"

fun split :: "string \<Rightarrow> char \<Rightarrow> string list" where
  "split [] sep = [[]]"
| "split (c # cs) sep =
     (if c = sep then [] # split cs sep
      else (c # hd (split cs sep)) # tl (split cs sep))"

definition toLowerChar :: "char \<Rightarrow> char" where
  "toLowerChar c =
     (case map_of (zip ''ABCDEFGHIJKLMNOPQRSTUVWXYZ'' ''abcdefghijklmnopqrstuvwxyz'') c of
        Some l \<Rightarrow> l
      | None \<Rightarrow> c)"

definition toLowerCase :: "string \<Rightarrow> string" where
  "toLowerCase s = map toLowerChar s"

section \<open>Symbol formatter\<close>

text \<open>\<open>formatStockCode\<close> of \<open>src/index.js\<close> (the TuShare integration).\<close>

definition formatStockCode :: "string \<Rightarrow> string" where
  "formatStockCode symbol0 =
     (if includes_str symbol0 ''.'' then symbol0
      else if startsWith symbol0 ''6'' then symbol0 @ ''.SH''
      else if startsWith symbol0 ''0'' \<or> startsWith symbol0 ''3'' then symbol0 @ ''.SZ''
      else symbol0)"

text \<open>
  \<open>formatStockCode\<close> of \<open>src/unnamed/part_002\<close> (the Tencent integration). The
  destructuring \<open>[code, market] = symbol.split(".")\<close> reads the first two pieces; it is
  reached only when the symbol includes the separator, where the split has at least two
  pieces (lemma \<open>split_two_pieces\<close>).
\<close>

definition formatStockCode_p2 :: "string \<Rightarrow> string" where
  "formatStockCode_p2 symbol0 =
     (if includes_str symbol0 ''.'' then
        (let parts = split symbol0 (CHR ''.'');
             code = parts ! 0;
             market = parts ! 1
         in toLowerCase market @ code)
      else if startsWith symbol0 ''6'' then ''sh'' @ symbol0
      else if startsWith symbol0 ''0'' \<or> startsWith symbol0 ''3'' then ''sz'' @ symbol0
      else symbol0)"

section \<open>Data model\<close>

record config =
  apiKey :: string

text \<open>
  A position as \<open>addPosition\<close> builds it: the symbol and the name are strings, the
  shares and the purchase price are numbers, of the type \<open>'n\<close> that models them.
  \<open>dateModified\<close> is absent until the first merge.
\<close>

record 'n position =
  symbol :: string
  name :: string
  shares :: 'n
  purchasePrice :: 'n
  dateAdded :: string
  dateModified :: "string option"

text \<open>
  The state of a \<open>StockMonitor\<close> together with the part of the world it acts on:
  \<open>config\<close> and \<open>portfolio\<close> are the fields \<open>this.config\<close> and
  \<open>this.portfolio\<close>; \<open>configFile\<close> and \<open>portfolioFile\<close> are the contents of the
  two files (\<open>None\<close> when \<open>fs.readFile\<close> rejects, as for a missing file);
  \<open>writable\<close> tells whether \<open>fs.writeFile\<close> succeeds; \<open>console\<close> is what has been
  printed.
\<close>

record 'n monitor =
  config :: config
  portfolio :: "'n position list"
  configFile :: "string option"
  portfolioFile :: "string option"
  writable :: bool
  console :: "string list"

datatype error = ReferenceError | WriteError | TypeError

section \<open>Persistence\<close>

text \<open>
  \<open>JSON.stringify\<close> and \<open>JSON.parse\<close> are library functions; they are parameters
  (\<open>stringify\<close>, \<open>parse\<close>), and \<open>parse\<close> returns \<open>None\<close> where \<open>JSON.parse\<close>
  throws.
\<close>

definition saveConfig ::
  "(config \<Rightarrow> string) \<Rightarrow> 'n monitor \<Rightarrow> (error + unit) \<times> 'n monitor" where
  "saveConfig stringify st =
     (if writable st then (Inr (), st\<lparr>configFile := Some (stringify (config st))\<rparr>)
      else (Inl WriteError, st))"

definition loadConfig ::
  "(string \<Rightarrow> config option) \<Rightarrow> (config \<Rightarrow> string) \<Rightarrow> 'n monitor
     \<Rightarrow> (error + unit) \<times> 'n monitor" where
  "loadConfig parse stringify st =
     (case configFile st of
        None \<Rightarrow> saveConfig stringify (st\<lparr>config := \<lparr>apiKey = ''''\<rparr>\<rparr>)
      | Some text0 \<Rightarrow>
          (case parse text0 of
             None \<Rightarrow> saveConfig stringify (st\<lparr>config := \<lparr>apiKey = ''''\<rparr>\<rparr>)
           | Some c \<Rightarrow> (Inr (), st\<lparr>config := c\<rparr>)))"

definition savePortfolio ::
  "('n position list \<Rightarrow> string) \<Rightarrow> 'n monitor \<Rightarrow> (error + unit) \<times> 'n monitor" where
  "savePortfolio stringify st =
     (if writable st then (Inr (), st\<lparr>portfolioFile := Some (stringify (portfolio st))\<rparr>)
      else (Inl WriteError, st))"

definition loadPortfolio ::
  "(string \<Rightarrow> 'n position list option) \<Rightarrow> ('n position list \<Rightarrow> string) \<Rightarrow> 'n monitor
     \<Rightarrow> (error + unit) \<times> 'n monitor" where
  "loadPortfolio parse stringify st =
     (case portfolioFile st of
        None \<Rightarrow> savePortfolio stringify (st\<lparr>portfolio := []\<rparr>)
      | Some text0 \<Rightarrow>
          (case parse text0 of
             None \<Rightarrow> savePortfolio stringify (st\<lparr>portfolio := []\<rparr>)
           | Some ps \<Rightarrow> (Inr (), st\<lparr>portfolio := ps\<rparr>)))"

section \<open>Portfolio engine\<close>

text \<open>
  \<open>Array.prototype.find\<close> returns a reference to the first matching element, which
  \<open>addPosition\<close> then updates in place; the model keeps the index of that element.
\<close>

fun find_index :: "('a \<Rightarrow> bool) \<Rightarrow> 'a list \<Rightarrow> nat option" where
  "find_index P [] = None"
| "find_index P (x # xs) = (if P x then Some 0 else map_option Suc (find_index P xs))"

text \<open>
  The merge branch of \<open>addPosition\<close>, the same in both files: the fields assigned to
  the existing position. \<open>now\<close> is \<open>new Date().toISOString()\<close>.
\<close>

definition merge_position ::
  "jsnum position \<Rightarrow> jsnum \<Rightarrow> jsnum \<Rightarrow> string \<Rightarrow> string \<Rightarrow> jsnum position" where
  "merge_position existingPosition shares0 purchasePrice0 name0 now =
     (let totalOldCost = js_mul (shares existingPosition) (purchasePrice existingPosition);
          totalNewCost = js_mul shares0 purchasePrice0;
          totalShares = js_add (shares existingPosition) shares0;
          averagePrice = js_div (js_add totalOldCost totalNewCost) totalShares
      in existingPosition
           \<lparr>shares := totalShares,
            purchasePrice := averagePrice,
            dateModified := Some now,
            name := (if name0 \<noteq> [] then name0 else name existingPosition)\<rparr>)"

text \<open>
  \<open>addPosition\<close> of \<open>src/index.js\<close>. The new position is declared with \<open>const\<close>
  inside the \<open>else\<close> block, so the \<open>position\<close> of the final
  \<open>return existingPosition || position\<close> is not in scope: when there is no existing
  position the operand is evaluated and a \<open>ReferenceError\<close> is thrown, after the
  portfolio has been saved.
\<close>

definition addPosition ::
  "(jsnum position list \<Rightarrow> string) \<Rightarrow> string \<Rightarrow> jsnum \<Rightarrow> jsnum \<Rightarrow> string \<Rightarrow> string
     \<Rightarrow> jsnum monitor \<Rightarrow> (error + jsnum position) \<times> jsnum monitor" where
  "addPosition stringify symbol0 shares0 purchasePrice0 name0 now st =
     (let formattedSymbol = formatStockCode symbol0 in
      case find_index (\<lambda>p. symbol p = formattedSymbol) (portfolio st) of
        Some i \<Rightarrow>
          (let existingPosition =
                 merge_position (portfolio st ! i) shares0 purchasePrice0 name0 now;
               st1 = st\<lparr>portfolio := (portfolio st)[i := existingPosition]\<rparr>
           in case savePortfolio stringify st1 of
                (Inl e, st2) \<Rightarrow> (Inl e, st2)
              | (Inr u, st2) \<Rightarrow> (Inr existingPosition, st2))
      | None \<Rightarrow>
          (let position0 =
                 \<lparr>symbol = formattedSymbol, name = name0, shares = shares0,
                  purchasePrice = purchasePrice0, dateAdded = now, dateModified = None\<rparr>;
               st1 = st\<lparr>portfolio := portfolio st @ [position0]\<rparr>
           in case savePortfolio stringify st1 of
                (Inl e, st2) \<Rightarrow> (Inl e, st2)
              | (Inr u, st2) \<Rightarrow> (Inl ReferenceError, st2)))"

text \<open>
  \<open>addPosition\<close> of \<open>src/unnamed/part_002\<close>: \<open>position\<close> is declared with
  \<open>let\<close> before the branch, and the new position is returned.
\<close>

definition addPosition_p2 ::
  "(jsnum position list \<Rightarrow> string) \<Rightarrow> string \<Rightarrow> jsnum \<Rightarrow> jsnum \<Rightarrow> string \<Rightarrow> string
     \<Rightarrow> jsnum monitor \<Rightarrow> (error + jsnum position) \<times> jsnum monitor" where
  "addPosition_p2 stringify symbol0 shares0 purchasePrice0 name0 now st =
     (let formattedSymbol = formatStockCode_p2 symbol0 in
      case find_index (\<lambda>p. symbol p = formattedSymbol) (portfolio st) of
        Some i \<Rightarrow>
          (let existingPosition =
                 merge_position (portfolio st ! i) shares0 purchasePrice0 name0 now;
               st1 = st\<lparr>portfolio := (portfolio st)[i := existingPosition]\<rparr>
           in case savePortfolio stringify st1 of
                (Inl e, st2) \<Rightarrow> (Inl e, st2)
              | (Inr u, st2) \<Rightarrow> (Inr existingPosition, st2))
      | None \<Rightarrow>
          (let position0 =
                 \<lparr>symbol = formattedSymbol, name = name0, shares = shares0,
                  purchasePrice = purchasePrice0, dateAdded = now, dateModified = None\<rparr>;
               st1 = st\<lparr>portfolio := portfolio st @ [position0]\<rparr>
           in case savePortfolio stringify st1 of
                (Inl e, st2) \<Rightarrow> (Inl e, st2)
              | (Inr u, st2) \<Rightarrow> (Inr position0, st2)))"

text \<open>\<open>removePosition\<close> of \<open>src/index.js\<close>.\<close>

definition removePosition ::
  "('n position list \<Rightarrow> string) \<Rightarrow> string \<Rightarrow> 'n monitor \<Rightarrow> (error + unit) \<times> 'n monitor" where
  "removePosition stringify symbol0 st =
     (let formattedSymbol = formatStockCode symbol0
      in savePortfolio stringify
           (st\<lparr>portfolio := filter (\<lambda>p. symbol p \<noteq> formattedSymbol) (portfolio st)\<rparr>))"

text \<open>
  \<open>removePosition\<close> of \<open>src/unnamed/part_002\<close>: the lookup compares the argument
  itself with the names and symbols, the filter compares the formatted argument with the
  symbols.
\<close>

definition removePosition_p2 ::
  "('n position list \<Rightarrow> string) \<Rightarrow> string \<Rightarrow> 'n monitor \<Rightarrow> (error + unit) \<times> 'n monitor" where
  "removePosition_p2 stringify symbol0 st =
     (case List.find (\<lambda>p. name p = symbol0 \<or> symbol p = symbol0) (portfolio st) of
        None \<Rightarrow> (Inr (), st\<lparr>console := console st @ [''Position not found'']\<rparr>)
      | Some position0 \<Rightarrow>
          (let formattedSymbol = formatStockCode_p2 symbol0
           in savePortfolio stringify
                (st\<lparr>portfolio := filter (\<lambda>p. symbol p \<noteq> formattedSymbol) (portfolio st)\<rparr>)))"

subsection \<open>Valuation\<close>

text \<open>
  The valuation multiplies, subtracts, divides and adds the numeric fields it reads and
  formats the figures with \<open>toFixed(2)\<close>. Those operations of the language are
  parameters here, a record of operations on the values \<open>'v\<close> that the fields hold:
  \<open>num_zero\<close> and \<open>num_hundred\<close> are the literals \<open>0\<close> and \<open>100\<close>, and
  \<open>num_toFixed x\<close> is the method call \<open>x.toFixed(2)\<close>, which raises a
  \<open>TypeError\<close> when \<open>x\<close> has no such method (\<open>null\<close>). The IEEE 754 binary64
  arithmetic of JavaScript numbers, with \<open>null\<close>, is defined below as one such record
  (\<open>binary64_ops\<close>).
\<close>

record 'v number_ops =
  num_mul :: "'v \<Rightarrow> 'v \<Rightarrow> 'v"
  num_div :: "'v \<Rightarrow> 'v \<Rightarrow> 'v"
  num_sub :: "'v \<Rightarrow> 'v \<Rightarrow> 'v"
  num_add :: "'v \<Rightarrow> 'v \<Rightarrow> 'v"
  num_zero :: 'v
  num_hundred :: 'v
  num_toFixed :: "'v \<Rightarrow> error + string"

text \<open>Sequencing: an error raised by the first step ends the computation.\<close>

definition and_then :: "error + 'a \<Rightarrow> ('a \<Rightarrow> error + 'b) \<Rightarrow> error + 'b" where
  "and_then r f = (case r of Inl e \<Rightarrow> Inl e | Inr x \<Rightarrow> f x)"

text \<open>The fields of a quote that the valuation reads.\<close>

record 'v quote =
  quote_close :: 'v
  quote_changePercent :: 'v

record 'v row =
  row_symbol :: string
  row_name :: string
  row_shares :: 'v
  row_purchasePrice :: string
  row_currentPrice :: string
  row_todayChange :: string
  row_value :: string
  row_profit :: string
  row_return :: string

record summary =
  totalValue :: string
  totalCost :: string
  totalProfit :: string
  totalReturn :: string

record 'v valuation =
  positions :: "'v row list"
  summary :: summary

text \<open>
  The loop of \<open>calculatePortfolio\<close>, the same in both files. \<open>getStockData i\<close> is
  what the fetch for the position at index \<open>i\<close> returns: a quote, or \<open>None\<close> for
  the \<open>null\<close> of a failed fetch. The loop runs over the array that
  \<open>this.portfolio\<close> holds when it starts. The properties of the pushed object are
  evaluated in the order of the source, so the first \<open>toFixed\<close> that raises ends the
  valuation.
\<close>

fun calculate_loop ::
  "'v number_ops \<Rightarrow> (nat \<Rightarrow> 'v quote option) \<Rightarrow> nat \<Rightarrow> 'v position list
     \<Rightarrow> 'v row list \<times> 'v \<times> 'v \<Rightarrow> error + ('v row list \<times> 'v \<times> 'v)" where
  "calculate_loop ops getStockData i [] acc = Inr acc"
| "calculate_loop ops getStockData i (position0 # rest) (results, totalValue0, totalCost0) =
     (case getStockData i of
        None \<Rightarrow>
          calculate_loop ops getStockData (Suc i) rest (results, totalValue0, totalCost0)
      | Some data \<Rightarrow>
          (let currentPrice = quote_close data;
               cost = num_mul ops (shares position0) (purchasePrice position0);
               value = num_mul ops (shares position0) currentPrice;
               profit = num_sub ops value cost;
               returnPct = num_mul ops (num_div ops profit cost) (num_hundred ops);
               totalValue1 = num_add ops totalValue0 value;
               totalCost1 = num_add ops totalCost0 cost
           in and_then (num_toFixed ops (purchasePrice position0)) (\<lambda>purchasePrice_s.
              and_then (num_toFixed ops currentPrice) (\<lambda>currentPrice_s.
              and_then (num_toFixed ops (quote_changePercent data)) (\<lambda>todayChange_s.
              and_then (num_toFixed ops value) (\<lambda>value_s.
              and_then (num_toFixed ops profit) (\<lambda>profit_s.
              and_then (num_toFixed ops returnPct) (\<lambda>return_s.
                calculate_loop ops getStockData (Suc i) rest
                  (results @
                     [\<lparr>row_symbol = symbol position0,
                       row_name = (if name position0 \<noteq> [] then name position0 else []),
                       row_shares = shares position0,
                       row_purchasePrice = purchasePrice_s,
                       row_currentPrice = currentPrice_s,
                       row_todayChange = todayChange_s @ ''%'',
                       row_value = value_s,
                       row_profit = profit_s,
                       row_return = return_s @ ''%''\<rparr>],
                   totalValue1,
                   totalCost1)))))))))"

definition calculatePortfolio ::
  "'v number_ops \<Rightarrow> (nat \<Rightarrow> 'v quote option) \<Rightarrow> 'v monitor \<Rightarrow> error + 'v valuation" where
  "calculatePortfolio ops getStockData st =
     and_then
       (calculate_loop ops getStockData 0 (portfolio st) ([], num_zero ops, num_zero ops))
       (\<lambda>acc. case acc of
          (results, totalValue0, totalCost0) \<Rightarrow>
            and_then (num_toFixed ops totalValue0) (\<lambda>totalValue_s.
            and_then (num_toFixed ops totalCost0) (\<lambda>totalCost_s.
            and_then (num_toFixed ops (num_sub ops totalValue0 totalCost0)) (\<lambda>totalProfit_s.
            and_then
              (num_toFixed ops
                 (num_mul ops
                    (num_div ops (num_sub ops totalValue0 totalCost0) totalCost0)
                    (num_hundred ops)))
              (\<lambda>totalReturn_s.
                 Inr \<lparr>positions = results,
                      summary =
                        \<lparr>totalValue = totalValue_s,
                         totalCost = totalCost_s,
                         totalProfit = totalProfit_s,
                         totalReturn = totalReturn_s\<rparr>\<rparr>)))))"

subsection \<open>Binary64 arithmetic\<close>

text \<open>
  JavaScript numbers are IEEE 754 binary64 values: the finite values (\<open>DNum x\<close>, with
  \<open>DNum 0\<close> for \<open>+0\<close>), \<open>-0\<close>, the two infinities and \<open>NaN\<close>. An operation
  returns the exact result rounded to the nearest representable value, ties to the even
  significand (\<open>rnd\<close>); \<open>quantum a\<close> is the spacing of the representable values at
  the magnitude \<open>a\<close>, a power of two between \<open>2^-1074\<close> and \<open>2^971\<close>.
\<close>

datatype double = DNum real | DNegZero | DInf | DNegInf | DNaN

function quantum_up :: "real \<Rightarrow> real \<Rightarrow> real" where
  "quantum_up q a = (if 0 < q \<and> 2 ^ 53 * q \<le> a then quantum_up (2 * q) a else q)"
  by pat_completeness auto
termination
proof (relation "measure (\<lambda>(q, a). nat \<lceil>a / q\<rceil>)")
  show "wf (measure (\<lambda>(q, a). nat \<lceil>a / q\<rceil>))" by simp
next
  fix q a :: real
  assume h: "0 < q \<and> 2 ^ 53 * q \<le> a"
  then have q: "0 < q" and "2 ^ 53 * q \<le> a" by simp_all
  then have t: "2 ^ 53 \<le> a / q" by (simp add: pos_le_divide_eq)
  have "a / (2 * q) = a / q / 2" by simp
  also have "\<dots> \<le> a / q - 1" using t by simp
  finally have "\<lceil>a / (2 * q)\<rceil> \<le> \<lceil>a / q - 1\<rceil>" by (rule ceiling_mono)
  then have "\<lceil>a / (2 * q)\<rceil> < \<lceil>a / q\<rceil>" by simp
  moreover have "0 < \<lceil>a / q\<rceil>" using t by (simp add: ceiling_less_iff less_ceiling_iff)
  ultimately show "((2 * q, a), (q, a)) \<in> measure (\<lambda>(q, a). nat \<lceil>a / q\<rceil>)"
    by simp
qed

function quantum_down :: "real \<Rightarrow> real \<Rightarrow> real" where
  "quantum_down q a =
     (if 1 / 2 ^ 1074 < q \<and> a < 2 ^ 52 * q then quantum_down (q / 2) a else q)"
  by pat_completeness auto
termination
proof (relation "measure (\<lambda>(q, a). nat \<lceil>q * 2 ^ 1074\<rceil>)")
  show "wf (measure (\<lambda>(q, a). nat \<lceil>q * 2 ^ 1074\<rceil>))" by simp
next
  fix q a :: real
  assume h: "1 / 2 ^ 1074 < q \<and> a < 2 ^ 52 * q"
  then have "1 / 2 ^ 1074 < q" by simp
  then have t: "1 < q * 2 ^ 1074" by (simp add: divide_less_eq)
  define u where "u = q * 2 ^ 1074"
  have "\<lceil>u / 2\<rceil> < \<lceil>u\<rceil>"
  proof (cases "2 \<le> u")
    case True
    then have "u / 2 \<le> u - 1" by simp
    then have "\<lceil>u / 2\<rceil> \<le> \<lceil>u - 1\<rceil>" by (rule ceiling_mono)
    then show ?thesis by simp
  next
    case False
    with t have half: "u / 2 \<le> 1" and one: "1 < u" by (simp_all add: u_def)
    have "\<lceil>u / 2\<rceil> \<le> 1" using half by (simp add: ceiling_le_iff)
    moreover have "2 \<le> \<lceil>u\<rceil>" using one by (simp add: le_ceiling_iff)
    ultimately show ?thesis by linarith
  qed
  moreover have "0 < \<lceil>u\<rceil>" using t by (simp add: u_def less_ceiling_iff)
  moreover have "q / 2 * 2 ^ 1074 = u / 2" by (simp add: u_def)
  ultimately show "((q / 2, a), (q, a)) \<in> measure (\<lambda>(q, a). nat \<lceil>q * 2 ^ 1074\<rceil>)"
    by (simp add: u_def)
qed

declare quantum_up.simps [simp del] quantum_down.simps [simp del]

definition quantum :: "real \<Rightarrow> real" where
  "quantum a = quantum_down (quantum_up (1 / 2 ^ 52) a) a"

definition round_even :: "real \<Rightarrow> int" where
  "round_even y =
     (let f = \<lfloor>y\<rfloor>; r = y - of_int f
      in if r < 1 / 2 then f else if 1 / 2 < r then f + 1 else if even f then f else f + 1)"

definition rnd :: "real \<Rightarrow> double" where
  "rnd x =
     (if x = 0 then DNum 0
      else
        (let q = quantum \<bar>x\<bar>;
             y = q * of_int (round_even (x / q))
         in if 2 ^ 1024 \<le> \<bar>y\<bar> then (if 0 < x then DInf else DNegInf)
            else if y = 0 then (if x < 0 then DNegZero else DNum 0)
            else DNum y))"

fun is_nan :: "double \<Rightarrow> bool" where
  "is_nan DNaN = True"
| "is_nan d = False"

fun is_inf :: "double \<Rightarrow> bool" where
  "is_inf DInf = True"
| "is_inf DNegInf = True"
| "is_inf d = False"

fun is_zero :: "double \<Rightarrow> bool" where
  "is_zero (DNum x) = (x = 0)"
| "is_zero DNegZero = True"
| "is_zero d = False"

fun negative :: "double \<Rightarrow> bool" where
  "negative (DNum x) = (x < 0)"
| "negative DNegZero = True"
| "negative DNegInf = True"
| "negative d = False"

fun val :: "double \<Rightarrow> real" where
  "val (DNum x) = x"
| "val d = 0"

definition signed_zero :: "bool \<Rightarrow> double" where
  "signed_zero neg = (if neg then DNegZero else DNum 0)"

definition signed_inf :: "bool \<Rightarrow> double" where
  "signed_inf neg = (if neg then DNegInf else DInf)"

fun dneg :: "double \<Rightarrow> double" where
  "dneg (DNum x) = (if x = 0 then DNegZero else DNum (- x))"
| "dneg DNegZero = DNum 0"
| "dneg DInf = DNegInf"
| "dneg DNegInf = DInf"
| "dneg DNaN = DNaN"

definition dadd :: "double \<Rightarrow> double \<Rightarrow> double" where
  "dadd a b =
     (if is_nan a \<or> is_nan b then DNaN
      else if is_inf a then (if is_inf b \<and> negative a \<noteq> negative b then DNaN else a)
      else if is_inf b then b
      else if is_zero a \<and> is_zero b then signed_zero (negative a \<and> negative b)
      else if val a + val b = 0 then DNum 0
      else rnd (val a + val b))"

definition dsub :: "double \<Rightarrow> double \<Rightarrow> double" where
  "dsub a b = dadd a (dneg b)"

definition dmul :: "double \<Rightarrow> double \<Rightarrow> double" where
  "dmul a b =
     (if is_nan a \<or> is_nan b then DNaN
      else if is_inf a \<or> is_inf b then
        (if is_zero a \<or> is_zero b then DNaN else signed_inf (negative a \<noteq> negative b))
      else if is_zero a \<or> is_zero b then signed_zero (negative a \<noteq> negative b)
      else rnd (val a * val b))"

definition ddiv :: "double \<Rightarrow> double \<Rightarrow> double" where
  "ddiv a b =
     (if is_nan a \<or> is_nan b then DNaN
      else if is_inf a then (if is_inf b then DNaN else signed_inf (negative a \<noteq> negative b))
      else if is_inf b then signed_zero (negative a \<noteq> negative b)
      else if is_zero b then (if is_zero a then DNaN else signed_inf (negative a \<noteq> negative b))
      else if is_zero a then signed_zero (negative a \<noteq> negative b)
      else rnd (val a / val b))"

text \<open>
  \<open>Number.prototype.toFixed\<close> at two digits: the integer \<open>n\<close> nearest to a hundred
  times the magnitude, the larger one of two that are equally near, printed with a point
  before its last two digits, after a minus sign when the number is below zero. From
  \<open>10^21\<close> on the method prints like \<open>toString\<close>, which is left as the parameter
  \<open>big\<close>.
\<close>

function digits :: "nat \<Rightarrow> string" where
  "digits n =
     (if n < 10 then [''0123456789'' ! n]
      else digits (n div 10) @ [''0123456789'' ! (n mod 10)])"
  by pat_completeness auto
termination
  by (relation "measure id") auto

declare digits.simps [simp del]

definition fixed2 :: "(real \<Rightarrow> string) \<Rightarrow> real \<Rightarrow> string" where
  "fixed2 big a =
     (if 10 ^ 21 \<le> a then big a
      else
        (let n = nat \<lfloor>a * 100 + 1 / 2\<rfloor>
         in digits (n div 100) @ ''.'' @
            [''0123456789'' ! (n mod 100 div 10), ''0123456789'' ! (n mod 10)]))"

definition dtoFixed :: "(real \<Rightarrow> string) \<Rightarrow> double \<Rightarrow> string" where
  "dtoFixed big d =
     (case d of
        DNaN \<Rightarrow> ''NaN''
      | DInf \<Rightarrow> ''Infinity''
      | DNegInf \<Rightarrow> ''-Infinity''
      | DNegZero \<Rightarrow> ''0.00''
      | DNum x \<Rightarrow> (if x < 0 then ''-'' @ fixed2 big (- x) else fixed2 big x))"

text \<open>
  A numeric field as \<open>JSON.parse\<close> returns it from what the program has saved: a number,
  or \<open>null\<close>, which \<open>JSON.stringify\<close> writes for \<open>NaN\<close> and the infinities. The
  arithmetic operators read \<open>null\<close> as \<open>+0\<close>; \<open>null.toFixed\<close> raises.
\<close>

datatype jsvalue = JNull | JNumber double

fun toNumber :: "jsvalue \<Rightarrow> double" where
  "toNumber JNull = DNum 0"
| "toNumber (JNumber d) = d"

definition binary64_ops :: "(real \<Rightarrow> string) \<Rightarrow> jsvalue number_ops" where
  "binary64_ops big =
     \<lparr>num_mul = (\<lambda>a b. JNumber (dmul (toNumber a) (toNumber b))),
      num_div = (\<lambda>a b. JNumber (ddiv (toNumber a) (toNumber b))),
      num_sub = (\<lambda>a b. JNumber (dsub (toNumber a) (toNumber b))),
      num_add = (\<lambda>a b. JNumber (dadd (toNumber a) (toNumber b))),
      num_zero = JNumber (DNum 0),
      num_hundred = JNumber (DNum 100),
      num_toFixed =
        (\<lambda>v. case v of JNull \<Rightarrow> Inl TypeError | JNumber d \<Rightarrow> Inr (dtoFixed big d))\<rparr>"

text \<open>
  The exact arithmetic of section Numbers as a record of operations; \<open>toFixed\<close> stays
  a parameter.
\<close>

definition exact_ops :: "(jsnum \<Rightarrow> string) \<Rightarrow> jsnum number_ops" where
  "exact_ops toFixed =
     \<lparr>num_mul = js_mul, num_div = js_div, num_sub = js_sub, num_add = js_add,
      num_zero = Fin 0, num_hundred = Fin 100, num_toFixed = (\<lambda>x. Inr (toFixed x))\<rparr>"

section \<open>Terms of the specification\<close>

text \<open>
  The definitions of this section follow the words of the specification; the theorems
  compare them with the definitions above, which follow the code.
\<close>

subsection \<open>Exchanges and qualified forms\<close>

datatype exchange = Shanghai | Shenzhen

datatype endpoint = TuShare | Tencent

text \<open>
  The exchange of a bare code, by its leading character: "6" is Shanghai, "0" and "3"
  are Shenzhen, anything else has none.
\<close>

definition exchange_of :: "string \<Rightarrow> exchange option" where
  "exchange_of code =
     (case code of
        [] \<Rightarrow> None
      | c # cs \<Rightarrow>
          (if c = CHR ''6'' then Some Shanghai
           else if c = CHR ''0'' \<or> c = CHR ''3'' then Some Shenzhen
           else None))"

text \<open>
  The form each endpoint expects, as the comments of the two formatters give it:
  \<open>600000.SH\<close> and \<open>000001.SZ\<close> for TuShare, \<open>sh600000\<close> and \<open>sz000001\<close>
  for Tencent.
\<close>

fun exchange_form :: "endpoint \<Rightarrow> exchange \<Rightarrow> string \<Rightarrow> string" where
  "exchange_form TuShare Shanghai code = code @ ''.SH''"
| "exchange_form TuShare Shenzhen code = code @ ''.SZ''"
| "exchange_form Tencent Shanghai code = ''sh'' @ code"
| "exchange_form Tencent Shenzhen code = ''sz'' @ code"

definition toUpperChar :: "char \<Rightarrow> char" where
  "toUpperChar c =
     (case map_of (zip ''abcdefghijklmnopqrstuvwxyz'' ''ABCDEFGHIJKLMNOPQRSTUVWXYZ'') c of
        Some u \<Rightarrow> u
      | None \<Rightarrow> c)"

definition toUpperCase :: "string \<Rightarrow> string" where
  "toUpperCase s = map toUpperChar s"

text \<open>
  A pre-qualified symbol \<open>code.market\<close> normalised to the case and the ordering of an
  endpoint: the market in capitals after the code for TuShare, in small letters before
  the code for Tencent.
\<close>

fun normalized_form :: "endpoint \<Rightarrow> string \<Rightarrow> string \<Rightarrow> string" where
  "normalized_form TuShare code market = code @ ''.'' @ toUpperCase market"
| "normalized_form Tencent code market = toLowerCase market @ code"

subsection \<open>Valuation of the quoted positions\<close>

text \<open>
  The successfully quoted positions, in portfolio order, each with its quote: the
  position at index \<open>i\<close> is kept when its fetch returned a quote.
\<close>

definition quoted_from ::
  "(nat \<Rightarrow> 'v quote option) \<Rightarrow> nat \<Rightarrow> 'v position list \<Rightarrow> ('v position \<times> 'v quote) list" where
  "quoted_from getStockData k ps =
     concat (map (\<lambda>ip. case ip of (i, p) \<Rightarrow>
                    (case getStockData i of None \<Rightarrow> [] | Some q \<Rightarrow> [(p, q)]))
               (zip [k ..< k + length ps] ps))"

definition quoted ::
  "(nat \<Rightarrow> 'v quote option) \<Rightarrow> 'v position list \<Rightarrow> ('v position \<times> 'v quote) list" where
  "quoted getStockData ps = quoted_from getStockData 0 ps"

text \<open>The figures of one quoted position, in the arithmetic \<open>ops\<close>.\<close>

definition cost_of :: "'v number_ops \<Rightarrow> 'v position \<times> 'v quote \<Rightarrow> 'v" where
  "cost_of ops pq = num_mul ops (shares (fst pq)) (purchasePrice (fst pq))"

definition value_of :: "'v number_ops \<Rightarrow> 'v position \<times> 'v quote \<Rightarrow> 'v" where
  "value_of ops pq = num_mul ops (shares (fst pq)) (quote_close (snd pq))"

definition profit_of :: "'v number_ops \<Rightarrow> 'v position \<times> 'v quote \<Rightarrow> 'v" where
  "profit_of ops pq = num_sub ops (value_of ops pq) (cost_of ops pq)"

definition returnPct_of :: "'v number_ops \<Rightarrow> 'v position \<times> 'v quote \<Rightarrow> 'v" where
  "returnPct_of ops pq =
     num_mul ops (num_div ops (profit_of ops pq) (cost_of ops pq)) (num_hundred ops)"

text \<open>
  The row shown for a quoted position: its figures formatted by \<open>toFixed\<close>, or the
  error of the first figure that cannot be formatted.
\<close>

definition row_of :: "'v number_ops \<Rightarrow> 'v position \<times> 'v quote \<Rightarrow> error + 'v row" where
  "row_of ops pq =
     and_then (num_toFixed ops (purchasePrice (fst pq))) (\<lambda>purchasePrice_s.
     and_then (num_toFixed ops (quote_close (snd pq))) (\<lambda>currentPrice_s.
     and_then (num_toFixed ops (quote_changePercent (snd pq))) (\<lambda>todayChange_s.
     and_then (num_toFixed ops (value_of ops pq)) (\<lambda>value_s.
     and_then (num_toFixed ops (profit_of ops pq)) (\<lambda>profit_s.
     and_then (num_toFixed ops (returnPct_of ops pq)) (\<lambda>return_s.
       Inr \<lparr>row_symbol = symbol (fst pq),
            row_name = name (fst pq),
            row_shares = shares (fst pq),
            row_purchasePrice = purchasePrice_s,
            row_currentPrice = currentPrice_s,
            row_todayChange = todayChange_s @ ''%'',
            row_value = value_s,
            row_profit = profit_s,
            row_return = return_s @ ''%''\<rparr>))))))"

fun rows_of :: "'v number_ops \<Rightarrow> ('v position \<times> 'v quote) list \<Rightarrow> error + 'v row list" where
  "rows_of ops [] = Inr []"
| "rows_of ops (pq # rest) =
     and_then (row_of ops pq) (\<lambda>r. and_then (rows_of ops rest) (\<lambda>rs. Inr (r # rs)))"

text \<open>The sum of a list of figures, taken from \<open>0\<close> in the order of the list.\<close>

definition sum_from :: "'v number_ops \<Rightarrow> 'v list \<Rightarrow> 'v" where
  "sum_from ops xs = foldl (num_add ops) (num_zero ops) xs"

text \<open>
  The summary: the sum of the values, the sum of the costs, their difference, and the
  return on the total cost, each formatted.
\<close>

definition summary_of :: "'v number_ops \<Rightarrow> ('v position \<times> 'v quote) list \<Rightarrow> error + summary" where
  "summary_of ops valued =
     (let values = sum_from ops (map (value_of ops) valued);
          costs = sum_from ops (map (cost_of ops) valued);
          difference = num_sub ops values costs
      in and_then (num_toFixed ops values) (\<lambda>totalValue_s.
         and_then (num_toFixed ops costs) (\<lambda>totalCost_s.
         and_then (num_toFixed ops difference) (\<lambda>totalProfit_s.
         and_then
           (num_toFixed ops (num_mul ops (num_div ops difference costs) (num_hundred ops)))
           (\<lambda>totalReturn_s.
              Inr \<lparr>totalValue = totalValue_s, totalCost = totalCost_s,
                   totalProfit = totalProfit_s, totalReturn = totalReturn_s\<rparr>)))))"

definition valuation_of ::
  "'v number_ops \<Rightarrow> ('v position \<times> 'v quote) list \<Rightarrow> error + 'v valuation" where
  "valuation_of ops valued =
     and_then (rows_of ops valued) (\<lambda>rows.
     and_then (summary_of ops valued) (\<lambda>s. Inr \<lparr>positions = rows, summary = s\<rparr>))"

text \<open>
  An arithmetic in which a difference of sums is the sum of the differences, as it is
  for exact numbers. The rounding of binary64 breaks it.
\<close>

definition difference_distributes :: "'v number_ops \<Rightarrow> bool" where
  "difference_distributes ops =
     (num_sub ops (num_zero ops) (num_zero ops) = num_zero ops \<and>
      (\<forall>a b c d.
         num_sub ops (num_add ops a b) (num_add ops c d) =
           num_add ops (num_sub ops a c) (num_sub ops b d)))"

text \<open>
  A quoted position one of whose figures to be formatted as read, the purchase price, the
  close or the percent change, is \<open>null\<close>.
\<close>

definition null_figure :: "jsvalue position \<times> jsvalue quote \<Rightarrow> bool" where
  "null_figure pq =
     (purchasePrice (fst pq) = JNull \<or> quote_close (snd pq) = JNull \<or>
      quote_changePercent (snd pq) = JNull)"

subsection \<open>Unreadable files\<close>

text \<open>
  A backing file is missing or corrupt: reading it fails, or its text does not parse.
\<close>

definition unreadable :: "(string \<Rightarrow> 'a option) \<Rightarrow> string option \<Rightarrow> bool" where
  "unreadable parse file = (case file of None \<Rightarrow> True | Some text0 \<Rightarrow> parse text0 = None)"

section \<open>Sample states\<close>

text \<open>
  Concrete inputs at which the theorems below are instantiated: an empty portfolio, a
  portfolio holding one position (under the symbol each of the two formatters gives
  "600000"), a world whose files cannot be written; and for the valuation a portfolio of
  two positions with a fetch that succeeds for the first only, a portfolio with prices in
  cents (\<open>rnd\<close> of a decimal is the number that \<open>JSON.parse\<close> reads from it), a
  portfolio whose purchase price has been saved as \<open>null\<close>, and a portfolio of exact
  numbers.
\<close>

definition st_empty :: "jsnum monitor" where
  "st_empty = \<lparr>config = \<lparr>apiKey = []\<rparr>, portfolio = [], configFile = None,
               portfolioFile = None, writable = True, console = []\<rparr>"

definition st_held :: "jsnum monitor" where
  "st_held = \<lparr>config = \<lparr>apiKey = []\<rparr>,
              portfolio = [\<lparr>symbol = ''600000.SH'', name = ''PuFa'', shares = Fin 50,
                            purchasePrice = Fin 8, dateAdded = ''t0'', dateModified = None\<rparr>],
              configFile = None, portfolioFile = None, writable = True, console = []\<rparr>"

definition st_held_p2 :: "jsnum monitor" where
  "st_held_p2 = \<lparr>config = \<lparr>apiKey = []\<rparr>,
              portfolio = [\<lparr>symbol = ''sh600000'', name = ''PuFa'', shares = Fin 50,
                            purchasePrice = Fin 8, dateAdded = ''t0'', dateModified = None\<rparr>],
              configFile = None, portfolioFile = None, writable = True, console = []\<rparr>"

definition st_readonly :: "jsnum monitor" where
  "st_readonly = \<lparr>config = \<lparr>apiKey = ''key''\<rparr>, portfolio = [], configFile = None,
               portfolioFile = Some ''[{'', writable = False, console = []\<rparr>"

definition st_example :: "jsvalue monitor" where
  "st_example = \<lparr>config = \<lparr>apiKey = []\<rparr>,
             portfolio = [\<lparr>symbol = ''sh600000'', name = ''PuFa'',
                           shares = JNumber (DNum 100), purchasePrice = JNumber (DNum 10),
                           dateAdded = ''t0'', dateModified = None\<rparr>,
                          \<lparr>symbol = ''sz000001'', name = [],
                           shares = JNumber (DNum 30), purchasePrice = JNumber (DNum 7),
                           dateAdded = ''t1'', dateModified = None\<rparr>],
             configFile = None, portfolioFile = None, writable = True, console = []\<rparr>"

definition fetch_first_only :: "nat \<Rightarrow> jsvalue quote option" where
  "fetch_first_only i =
     (if i = 0
      then Some \<lparr>quote_close = JNumber (DNum 11), quote_changePercent = JNumber (DNum 1)\<rparr>
      else None)"

definition st_cents :: "jsvalue monitor" where
  "st_cents = \<lparr>config = \<lparr>apiKey = []\<rparr>,
             portfolio = [\<lparr>symbol = ''sh600000'', name = [],
                           shares = JNumber (DNum 100),
                           purchasePrice = JNumber (rnd (12 / 100)),
                           dateAdded = ''t0'', dateModified = None\<rparr>,
                          \<lparr>symbol = ''sz000001'', name = [],
                           shares = JNumber (DNum 3),
                           purchasePrice = JNumber (rnd (943 / 1000)),
                           dateAdded = ''t1'', dateModified = None\<rparr>],
             configFile = None, portfolioFile = None, writable = True, console = []\<rparr>"

definition fetch_cents :: "nat \<Rightarrow> jsvalue quote option" where
  "fetch_cents i =
     (if i = 0
      then Some \<lparr>quote_close = JNumber (rnd (752 / 1000)), quote_changePercent = JNumber (DNum 1)\<rparr>
      else Some \<lparr>quote_close = JNumber (rnd (328 / 1000)), quote_changePercent = JNumber (DNum 1)\<rparr>)"

definition st_null_price :: "jsvalue monitor" where
  "st_null_price = \<lparr>config = \<lparr>apiKey = []\<rparr>,
             portfolio = [\<lparr>symbol = ''sh600000'', name = ''PuFa'',
                           shares = JNumber (DNum 0), purchasePrice = JNull,
                           dateAdded = ''t0'', dateModified = Some ''t1''\<rparr>],
             configFile = None, portfolioFile = None, writable = True, console = []\<rparr>"

definition st_exact :: "jsnum monitor" where
  "st_exact = \<lparr>config = \<lparr>apiKey = []\<rparr>,
             portfolio = [\<lparr>symbol = ''sh600000'', name = ''PuFa'', shares = Fin 100,
                           purchasePrice = Fin 10, dateAdded = ''t0'', dateModified = None\<rparr>],
             configFile = None, portfolioFile = None, writable = True, console = []\<rparr>"

definition fetch_exact :: "nat \<Rightarrow> jsnum quote option" where
  "fetch_exact i = Some \<lparr>quote_close = Fin 11, quote_changePercent = Fin 1\<rparr>"

section \<open>The symbol formatter\<close>

subsection \<open>String methods\<close>

lemma startsWith_single: "startsWith s [c] \<longleftrightarrow> (\<exists>t. s = c # t)"
  by (cases s) (auto simp: startsWith_def)

lemma includes_single: "includes_str s [c] \<longleftrightarrow> c \<in> set s"
  by (induction s) (auto simp: startsWith_def)

lemma split_nonempty: "split s sep \<noteq> []"
  by (induction s) auto

lemma split_no_sep: "sep \<notin> set s \<Longrightarrow> split s sep = [s]"
  by (induction s) auto

lemma split_append: "sep \<notin> set a \<Longrightarrow> split (a @ sep # b) sep = a # split b sep"
  by (induction a) auto

lemma split_pieces_no_sep: "p \<in> set (split s sep) \<Longrightarrow> sep \<notin> set p"
proof (induction s arbitrary: p)
  case Nil
  then show ?case by simp
next
  case (Cons c cs)
  show ?case
  proof (cases "c = sep")
    case True
    with Cons show ?thesis by auto
  next
    case False
    have ne: "split cs sep \<noteq> []" by (rule split_nonempty)
    from Cons.prems False have "p = c # hd (split cs sep) \<or> p \<in> set (tl (split cs sep))"
      by simp
    then show ?thesis
    proof
      assume "p = c # hd (split cs sep)"
      moreover have "sep \<notin> set (hd (split cs sep))"
        using Cons.IH [of "hd (split cs sep)"] ne by simp
      ultimately show ?thesis using False by auto
    next
      assume "p \<in> set (tl (split cs sep))"
      then have "p \<in> set (split cs sep)" using ne by (auto dest: list.set_sel(2))
      then show ?thesis by (rule Cons.IH)
    qed
  qed
qed

lemma split_two_pieces: "sep \<in> set s \<Longrightarrow> 2 \<le> length (split s sep)"
proof (induction s)
  case Nil
  then show ?case by simp
next
  case (Cons c cs)
  have ne: "split cs sep \<noteq> []" by (rule split_nonempty)
  show ?case
  proof (cases "c = sep")
    case True
    then show ?thesis using ne by (cases "split cs sep") auto
  next
    case False
    with Cons.prems have "sep \<in> set cs" by simp
    then have "2 \<le> length (split cs sep)" by (rule Cons.IH)
    then show ?thesis using False by (cases "split cs sep") auto
  qed
qed

lemma toLowerChar_range:
  "toLowerChar c = c \<or> toLowerChar c \<in> set ''abcdefghijklmnopqrstuvwxyz''"
proof (cases "map_of (zip ''ABCDEFGHIJKLMNOPQRSTUVWXYZ'' ''abcdefghijklmnopqrstuvwxyz'') c")
  case None
  then show ?thesis by (simp add: toLowerChar_def)
next
  case (Some l)
  then have "(c, l) \<in> set (zip ''ABCDEFGHIJKLMNOPQRSTUVWXYZ'' ''abcdefghijklmnopqrstuvwxyz'')"
    by (rule map_of_SomeD)
  then have "l \<in> set ''abcdefghijklmnopqrstuvwxyz''" by (rule set_zip_rightD)
  with Some show ?thesis by (simp add: toLowerChar_def)
qed

lemma toLowerChar_keeps: 
  "c \<notin> set ''abcdefghijklmnopqrstuvwxyz'' \<Longrightarrow> toLowerChar x = c \<Longrightarrow> x = c"
  using toLowerChar_range [of x] by auto

lemma toLowerChar_dot: "toLowerChar x = CHR ''.'' \<Longrightarrow> x = CHR ''.''"
  by (rule toLowerChar_keeps) simp_all

lemma toLowerCase_no_dot:
  assumes "CHR ''.'' \<notin> set s"
  shows "CHR ''.'' \<notin> set (toLowerCase s)"
proof
  assume "CHR ''.'' \<in> set (toLowerCase s)"
  then obtain x where x: "x \<in> set s" and "toLowerChar x = CHR ''.''"
    by (auto simp: toLowerCase_def)
  then have "x = CHR ''.''" by (simp add: toLowerChar_dot)
  with x assms show False by simp
qed

lemma exchange_of_startsWith:
  "exchange_of s = (if startsWith s ''6'' then Some Shanghai
                    else if startsWith s ''0'' \<or> startsWith s ''3'' then Some Shenzhen
                    else None)"
  by (cases s) (auto simp: exchange_of_def startsWith_def)

lemma formatStockCode_bare:
  "\<not> includes_str s ''.'' \<Longrightarrow>
   formatStockCode s = (case exchange_of s of Some ex \<Rightarrow> exchange_form TuShare ex s | None \<Rightarrow> s)"
  by (simp add: formatStockCode_def exchange_of_startsWith)

lemma formatStockCode_p2_bare:
  "\<not> includes_str s ''.'' \<Longrightarrow>
   formatStockCode_p2 s = (case exchange_of s of Some ex \<Rightarrow> exchange_form Tencent ex s | None \<Rightarrow> s)"
  by (simp add: formatStockCode_p2_def exchange_of_startsWith)

lemma formatStockCode_p2_dotted:
  "includes_str s ''.'' \<Longrightarrow>
   formatStockCode_p2 s = normalized_form Tencent (split s (CHR ''.'') ! 0) (split s (CHR ''.'') ! 1)"
  by (simp add: formatStockCode_p2_def Let_def)

lemma formatStockCode_p2_code_market:
  assumes "CHR ''.'' \<notin> set code" and "CHR ''.'' \<notin> set market"
  shows "formatStockCode_p2 (code @ ''.'' @ market) = toLowerCase market @ code"
proof -
  have "split (code @ ''.'' @ market) (CHR ''.'') = [code, market]"
    using assms by (simp add: split_append split_no_sep)
  then show ?thesis
    by (simp add: formatStockCode_p2_def includes_single)
qed

lemma formatStockCode_p2_no_dot: "CHR ''.'' \<notin> set (formatStockCode_p2 s)"
proof (cases "CHR ''.'' \<in> set s")
  case True
  let ?parts = "split s (CHR ''.'')"
  from True have len: "2 \<le> length ?parts" by (rule split_two_pieces)
  then have l0: "0 < length ?parts" and l1: "1 < length ?parts" by linarith+
  have "?parts ! 0 \<in> set ?parts" and "?parts ! 1 \<in> set ?parts"
    using l0 l1 by (simp_all only: nth_mem)
  then have "CHR ''.'' \<notin> set (?parts ! 0)" and "CHR ''.'' \<notin> set (?parts ! 1)"
    by (auto dest: split_pieces_no_sep)
  with True show ?thesis
    by (simp add: formatStockCode_p2_def includes_single Let_def toLowerCase_no_dot)
next
  case False
  then show ?thesis
    by (simp add: formatStockCode_p2_def includes_single)
qed

lemma formatStockCode_idem: "formatStockCode (formatStockCode s) = formatStockCode s"
  by (simp add: formatStockCode_def includes_single)

lemma formatStockCode_p2_again:
  "formatStockCode_p2 (formatStockCode_p2 s) =
     (case exchange_of (formatStockCode_p2 s) of
        Some ex \<Rightarrow> exchange_form Tencent ex (formatStockCode_p2 s)
      | None \<Rightarrow> formatStockCode_p2 s)"
  by (rule formatStockCode_p2_bare) (simp add: includes_single formatStockCode_p2_no_dot)

lemma exchange_of_bare_p2:
  "\<not> includes_str s ''.'' \<Longrightarrow> exchange_of (formatStockCode_p2 s) = None"
  by (cases s) (auto simp: formatStockCode_p2_def exchange_of_def startsWith_def)

subsection \<open>What the two formatters return\<close>

text \<open>
  C3, as amended. For every input symbol: when it includes the separator ".",
  \<open>src/index.js\<close> returns it unchanged (so it is in the form TuShare expects only when
  its market part is already in capitals), and \<open>src/unnamed/part_002\<close> returns the
  second piece in small letters followed by the first piece, the form Tencent expects;
  otherwise a code beginning with "6" gets the Shanghai form, a code beginning with "0"
  or "3" the Shenzhen form, and any other input is returned unchanged.
\<close>

theorem formatStockCode_by_cases:
  "(includes_str s ''.'' \<longrightarrow>
      formatStockCode s = s \<and>
      formatStockCode_p2 s =
        normalized_form Tencent (split s (CHR ''.'') ! 0) (split s (CHR ''.'') ! 1)) \<and>
   (\<not> includes_str s ''.'' \<longrightarrow>
      formatStockCode s =
        (case exchange_of s of Some ex \<Rightarrow> exchange_form TuShare ex s | None \<Rightarrow> s) \<and>
      formatStockCode_p2 s =
        (case exchange_of s of Some ex \<Rightarrow> exchange_form Tencent ex s | None \<Rightarrow> s)) \<and>
   (CHR ''.'' \<notin> set code \<and> CHR ''.'' \<notin> set market \<longrightarrow>
      formatStockCode_p2 (code @ ''.'' @ market) = normalized_form Tencent code market) \<and>
   (toUpperCase market = market \<longrightarrow>
      formatStockCode (code @ ''.'' @ market) = normalized_form TuShare code market)"
proof (intro conjI impI)
  assume "includes_str s ''.''"
  then show "formatStockCode s = s" by (simp add: formatStockCode_def)
next
  assume "includes_str s ''.''"
  then show "formatStockCode_p2 s =
      normalized_form Tencent (split s (CHR ''.'') ! 0) (split s (CHR ''.'') ! 1)"
    by (rule formatStockCode_p2_dotted)
next
  assume "\<not> includes_str s ''.''"
  then show "formatStockCode s =
      (case exchange_of s of Some ex \<Rightarrow> exchange_form TuShare ex s | None \<Rightarrow> s)"
    by (rule formatStockCode_bare)
next
  assume "\<not> includes_str s ''.''"
  then show "formatStockCode_p2 s =
      (case exchange_of s of Some ex \<Rightarrow> exchange_form Tencent ex s | None \<Rightarrow> s)"
    by (rule formatStockCode_p2_bare)
next
  assume "CHR ''.'' \<notin> set code \<and> CHR ''.'' \<notin> set market"
  then have "CHR ''.'' \<notin> set code" and "CHR ''.'' \<notin> set market" by simp_all
  then show "formatStockCode_p2 (code @ ''.'' @ market) = normalized_form Tencent code market"
    unfolding normalized_form.simps by (rule formatStockCode_p2_code_market)
next
  assume "toUpperCase market = market"
  then show "formatStockCode (code @ ''.'' @ market) = normalized_form TuShare code market"
    by (simp add: formatStockCode_def includes_single)
qed

theorem formatStockCode_by_cases_witness:
  "includes_str ''600000.SH'' ''.'' \<and>
   formatStockCode ''600000.SH'' = ''600000.SH'' \<and>
   formatStockCode_p2 ''600000.SH'' = ''sh600000'' \<and>
   \<not> includes_str ''000001'' ''.'' \<and>
   formatStockCode ''000001'' = ''000001.SZ'' \<and>
   formatStockCode_p2 ''000001'' = ''sz000001'' \<and>
   toUpperCase ''SH'' = ''SH'' \<and>
   normalized_form TuShare ''600000'' ''SH'' = ''600000.SH''"
proof -
  have dotted: "includes_str ''600000.SH'' ''.''"
    by (simp add: startsWith_def)
  have bare: "\<not> includes_str ''000001'' ''.''"
    by (simp add: startsWith_def)
  have upper: "toUpperCase ''SH'' = ''SH''"
    by (simp add: toUpperCase_def toUpperChar_def)
  have no_dot: "CHR ''.'' \<notin> set ''600000'' \<and> CHR ''.'' \<notin> set ''SH''"
    by simp
  from formatStockCode_by_cases [of "''600000.SH''" "''600000''" "''SH''"] dotted upper no_dot
  have "formatStockCode ''600000.SH'' = ''600000.SH''"
    and "formatStockCode_p2 ''600000.SH'' = ''sh600000''"
    and "normalized_form TuShare ''600000'' ''SH'' = ''600000.SH''"
    by (simp_all add: toLowerCase_def toLowerChar_def)
  moreover from formatStockCode_by_cases [of "''000001''" "[]" "[]"] bare
  have "formatStockCode ''000001'' = ''000001.SZ''"
    and "formatStockCode_p2 ''000001'' = ''sz000001''"
    by (simp_all add: exchange_of_def)
  ultimately show ?thesis using dotted bare upper by simp
qed

text \<open>
  The claim as stated fails in \<open>src/index.js\<close>: a pre-qualified symbol written in
  small letters keeps them, and is not the form TuShare expects.
\<close>

theorem formatStockCode_by_cases_counterexample:
  "includes_str ''600000.sh'' ''.'' \<and>
   formatStockCode ''600000.sh'' = ''600000.sh'' \<and>
   normalized_form TuShare (split ''600000.sh'' (CHR ''.'') ! 0)
     (split ''600000.sh'' (CHR ''.'') ! 1) = ''600000.SH''"
  by (simp add: formatStockCode_def startsWith_def toUpperCase_def toUpperChar_def)

subsection \<open>Formatting twice\<close>

text \<open>
  C4, as amended. The formatter of \<open>src/index.js\<close> is idempotent on every input. The
  formatter of \<open>src/unnamed/part_002\<close> returns the same value when applied again
  exactly when the formatted symbol does not begin with "6", "0" or "3", which is so for
  every input without a separator.
\<close>

theorem formatStockCode_twice:
  "formatStockCode (formatStockCode s) = formatStockCode s \<and>
   (formatStockCode_p2 (formatStockCode_p2 s) = formatStockCode_p2 s
      \<longleftrightarrow> exchange_of (formatStockCode_p2 s) = None) \<and>
   (\<not> includes_str s ''.'' \<longrightarrow> exchange_of (formatStockCode_p2 s) = None)"
proof (intro conjI impI)
  show "formatStockCode (formatStockCode s) = formatStockCode s"
    by (rule formatStockCode_idem)
next
  show "formatStockCode_p2 (formatStockCode_p2 s) = formatStockCode_p2 s
      \<longleftrightarrow> exchange_of (formatStockCode_p2 s) = None"
  proof (cases "exchange_of (formatStockCode_p2 s)")
    case None
    then show ?thesis by (simp add: formatStockCode_p2_again)
  next
    case (Some ex)
    then show ?thesis by (cases ex) (simp_all add: formatStockCode_p2_again)
  qed
next
  assume "\<not> includes_str s ''.''"
  then show "exchange_of (formatStockCode_p2 s) = None" by (rule exchange_of_bare_p2)
qed

theorem formatStockCode_twice_witness:
  "\<not> includes_str ''600000'' ''.'' \<and>
   formatStockCode (formatStockCode ''600000'') = formatStockCode ''600000'' \<and>
   formatStockCode_p2 (formatStockCode_p2 ''600000'') = formatStockCode_p2 ''600000'' \<and>
   formatStockCode_p2 ''600000'' = ''sh600000''"
proof -
  have bare: "\<not> includes_str ''600000'' ''.''"
    by (simp add: startsWith_def)
  have "formatStockCode_p2 ''600000'' = ''sh600000''"
    by (simp add: formatStockCode_p2_def startsWith_def)
  with formatStockCode_twice [of "''600000''"] bare show ?thesis by simp
qed

text \<open>
  The claim as stated fails in \<open>src/unnamed/part_002\<close>: "sh.600000" is formatted to
  "600000sh", and that to "sh600000sh".
\<close>

theorem formatStockCode_twice_counterexample:
  "formatStockCode_p2 ''sh.600000'' = ''600000sh'' \<and>
   formatStockCode_p2 (formatStockCode_p2 ''sh.600000'') = ''sh600000sh''"
  by (simp add: formatStockCode_p2_def startsWith_def toLowerCase_def toLowerChar_def)

section \<open>Persistence\<close>

text \<open>
  C8, as amended. For every load of the configuration or of the portfolio where the
  backing file is missing or does not parse, the loader sets the default record in memory
  (a configuration with an empty \<open>apiKey\<close>, an empty portfolio) and writes it back at
  once. When that write succeeds the default is on disk and the loader returns normally;
  no error of the read or of the parse reaches the caller. When the write fails, its
  error does reach the caller, the default stays in memory and the file is as it was.
\<close>

theorem load_substitutes_default:
  "(unreadable parse_c (configFile st) \<longrightarrow>
      loadConfig parse_c str_c st =
        (if writable st
         then (Inr (), st\<lparr>config := \<lparr>apiKey = []\<rparr>,
                          configFile := Some (str_c \<lparr>apiKey = []\<rparr>)\<rparr>)
         else (Inl WriteError, st\<lparr>config := \<lparr>apiKey = []\<rparr>\<rparr>))) \<and>
   (unreadable parse_p (portfolioFile st) \<longrightarrow>
      loadPortfolio parse_p str_p st =
        (if writable st
         then (Inr (), st\<lparr>portfolio := [], portfolioFile := Some (str_p [])\<rparr>)
         else (Inl WriteError, st\<lparr>portfolio := []\<rparr>)))"
  by (simp add: unreadable_def loadConfig_def loadPortfolio_def saveConfig_def savePortfolio_def
        split: option.splits)

theorem load_substitutes_default_witness:
  "unreadable (\<lambda>t. None) (configFile st_empty) \<and>
   loadConfig (\<lambda>t. None) (\<lambda>c. ''apiKey='' @ apiKey c) st_empty =
     (Inr (), st_empty\<lparr>config := \<lparr>apiKey = []\<rparr>, configFile := Some ''apiKey=''\<rparr>) \<and>
   unreadable (\<lambda>t. None) (portfolioFile st_readonly) \<and>
   loadPortfolio (\<lambda>t. None) (\<lambda>ps. ''[]'') st_readonly =
     (Inl WriteError, st_readonly\<lparr>portfolio := []\<rparr>)"
proof -
  have u1: "unreadable (\<lambda>t. None) (configFile st_empty)"
    by (simp add: unreadable_def st_empty_def)
  have u2: "unreadable (\<lambda>t. None) (portfolioFile st_readonly)"
    by (simp add: unreadable_def st_readonly_def)
  have w1: "writable st_empty" and w2: "\<not> writable st_readonly"
    by (simp_all add: st_empty_def st_readonly_def)
  from load_substitutes_default [of "\<lambda>t. None" st_empty "\<lambda>c. ''apiKey='' @ apiKey c" "\<lambda>t. None" "\<lambda>ps. ''[]''"] u1 w1
  have "loadConfig (\<lambda>t. None) (\<lambda>c. ''apiKey='' @ apiKey c) st_empty =
     (Inr (), st_empty\<lparr>config := \<lparr>apiKey = []\<rparr>, configFile := Some ''apiKey=''\<rparr>)"
    by auto
  moreover
  from load_substitutes_default [of "\<lambda>t. None" st_readonly "\<lambda>c. ''apiKey='' @ apiKey c" "\<lambda>t. None" "\<lambda>ps. ''[]''"] u2 w2
  have "loadPortfolio (\<lambda>t. None) (\<lambda>ps. ''[]'') st_readonly =
     (Inl WriteError, st_readonly\<lparr>portfolio := []\<rparr>)"
    by auto
  ultimately show ?thesis using u1 u2 by simp
qed

text \<open>
  The claim as stated fails where the files cannot be written: the configuration file
  is missing, the portfolio file does not parse, and both loaders pass the error of
  \<open>fs.writeFile\<close> on to the caller; nothing is persisted.
\<close>

theorem load_substitutes_default_counterexample:
  "unreadable (\<lambda>t. None) (configFile st_readonly) \<and>
   fst (loadConfig (\<lambda>t. None) (\<lambda>c. ''apiKey='' @ apiKey c) st_readonly) = Inl WriteError \<and>
   unreadable (\<lambda>t. None) (portfolioFile st_readonly) \<and>
   fst (loadPortfolio (\<lambda>t. None) (\<lambda>ps. ''[]'') st_readonly) = Inl WriteError \<and>
   portfolioFile (snd (loadPortfolio (\<lambda>t. None) (\<lambda>ps. ''[]'') st_readonly)) = Some ''[{''"
  by (simp add: unreadable_def st_readonly_def loadConfig_def loadPortfolio_def saveConfig_def
        savePortfolio_def)

section \<open>Adding positions\<close>

lemma find_index_None: "find_index P xs = None \<longleftrightarrow> (\<forall>x \<in> set xs. \<not> P x)"
  by (induction xs) auto

lemma find_index_Some:
  "find_index P xs = Some i \<Longrightarrow> i < length xs \<and> P (xs ! i) \<and> (\<forall>j < i. \<not> P (xs ! j))"
proof (induction xs arbitrary: i)
  case Nil
  then show ?case by simp
next
  case (Cons x xs)
  show ?case
  proof (cases "P x")
    case True
    with Cons.prems show ?thesis by simp
  next
    case False
    with Cons.prems obtain k where k: "find_index P xs = Some k" and i: "i = Suc k"
      by auto
    from Cons.IH [OF k] have "k < length xs" and "P (xs ! k)" and "\<forall>j < k. \<not> P (xs ! j)"
      by simp_all
    with False i show ?thesis by (auto simp: nth_Cons split: nat.splits)
  qed
qed

lemma find_index_append_new:
  "find_index P xs = None \<Longrightarrow> P x \<Longrightarrow> find_index P (xs @ [x]) = Some (length xs)"
  by (induction xs) (auto split: if_splits)

lemma filter_none: "find_index P xs = None \<Longrightarrow> filter P xs = []"
  by (simp add: find_index_None)

lemma not_held: "fs \<notin> symbol ` set ps \<longleftrightarrow> find_index (\<lambda>p. symbol p = fs) ps = None"
  by (auto simp: find_index_None)

lemma addPosition_new:
  assumes "find_index (\<lambda>p. symbol p = formatStockCode smb) (portfolio st) = None"
  shows "portfolio (snd (addPosition str smb sh pr nm now st)) =
           portfolio st @ [\<lparr>symbol = formatStockCode smb, name = nm, shares = sh,
                            purchasePrice = pr, dateAdded = now, dateModified = None\<rparr>]"
    and "fst (addPosition str smb sh pr nm now st) =
           (if writable st then Inl ReferenceError else Inl WriteError)"
    and "portfolioFile (snd (addPosition str smb sh pr nm now st)) =
           (if writable st
            then Some (str (portfolio st @ [\<lparr>symbol = formatStockCode smb, name = nm, shares = sh,
                            purchasePrice = pr, dateAdded = now, dateModified = None\<rparr>]))
            else portfolioFile st)"
  using assms by (simp_all add: addPosition_def Let_def savePortfolio_def)

lemma addPosition_p2_new:
  assumes "find_index (\<lambda>p. symbol p = formatStockCode_p2 smb) (portfolio st) = None"
  shows "portfolio (snd (addPosition_p2 str smb sh pr nm now st)) =
           portfolio st @ [\<lparr>symbol = formatStockCode_p2 smb, name = nm, shares = sh,
                            purchasePrice = pr, dateAdded = now, dateModified = None\<rparr>]"
    and "fst (addPosition_p2 str smb sh pr nm now st) =
           (if writable st
            then Inr \<lparr>symbol = formatStockCode_p2 smb, name = nm, shares = sh,
                            purchasePrice = pr, dateAdded = now, dateModified = None\<rparr>
            else Inl WriteError)"
    and "portfolioFile (snd (addPosition_p2 str smb sh pr nm now st)) =
           (if writable st
            then Some (str (portfolio st @ [\<lparr>symbol = formatStockCode_p2 smb, name = nm, shares = sh,
                            purchasePrice = pr, dateAdded = now, dateModified = None\<rparr>]))
            else portfolioFile st)"
  using assms by (simp_all add: addPosition_p2_def Let_def savePortfolio_def)

lemma addPosition_merge:
  assumes "find_index (\<lambda>p. symbol p = formatStockCode smb) (portfolio st) = Some i"
  shows "portfolio (snd (addPosition str smb sh pr nm now st)) =
           (portfolio st)[i := merge_position (portfolio st ! i) sh pr nm now]"
    and "fst (addPosition str smb sh pr nm now st) =
           (if writable st then Inr (merge_position (portfolio st ! i) sh pr nm now)
            else Inl WriteError)"
  using assms by (simp_all add: addPosition_def Let_def savePortfolio_def)

lemma addPosition_p2_merge:
  assumes "find_index (\<lambda>p. symbol p = formatStockCode_p2 smb) (portfolio st) = Some i"
  shows "portfolio (snd (addPosition_p2 str smb sh pr nm now st)) =
           (portfolio st)[i := merge_position (portfolio st ! i) sh pr nm now]"
    and "fst (addPosition_p2 str smb sh pr nm now st) =
           (if writable st then Inr (merge_position (portfolio st ! i) sh pr nm now)
            else Inl WriteError)"
  using assms by (simp_all add: addPosition_p2_def Let_def savePortfolio_def)

lemma merge_position_fields:
  "symbol (merge_position p sh pr nm now) = symbol p"
  "dateAdded (merge_position p sh pr nm now) = dateAdded p"
  "name (merge_position p sh pr nm now) = (if nm \<noteq> [] then nm else name p)"
  "shares (merge_position p sh pr nm now) = js_add (shares p) sh"
  "purchasePrice (merge_position p sh pr nm now) =
     js_div (js_add (js_mul (shares p) (purchasePrice p)) (js_mul sh pr)) (js_add (shares p) sh)"
  "dateModified (merge_position p sh pr nm now) = Some now"
  by (simp_all add: merge_position_def Let_def)

lemma two_adds_generic:
  fixes fs n1 sh1 pr1 t1
  defines "new \<equiv> \<lparr>symbol = fs, name = n1, shares = sh1, purchasePrice = pr1,
                   dateAdded = t1, dateModified = None\<rparr>"
  assumes none: "find_index (\<lambda>p. symbol p = fs) ps = None"
  shows "find_index (\<lambda>p. symbol p = fs) (ps @ [new]) = Some (length ps)"
    and "(ps @ [new])[length ps := merge_position ((ps @ [new]) ! length ps) sh2 pr2 n2 t2] =
         ps @ [\<lparr>symbol = fs, name = (if n2 \<noteq> [] then n2 else n1), shares = js_add sh1 sh2,
                purchasePrice = js_div (js_add (js_mul sh1 pr1) (js_mul sh2 pr2)) (js_add sh1 sh2),
                dateAdded = t1, dateModified = Some t2\<rparr>]"
proof -
  show "find_index (\<lambda>p. symbol p = fs) (ps @ [new]) = Some (length ps)"
    using none by (rule find_index_append_new) (simp add: new_def)
  show "(ps @ [new])[length ps := merge_position ((ps @ [new]) ! length ps) sh2 pr2 n2 t2] =
         ps @ [\<lparr>symbol = fs, name = (if n2 \<noteq> [] then n2 else n1), shares = js_add sh1 sh2,
                purchasePrice = js_div (js_add (js_mul sh1 pr1) (js_mul sh2 pr2)) (js_add sh1 sh2),
                dateAdded = t1, dateModified = Some t2\<rparr>]"
    by (simp add: new_def merge_position_def Let_def)
qed

lemma addPosition_twice:
  assumes none: "find_index (\<lambda>p. symbol p = formatStockCode smb) (portfolio st) = None"
  shows "portfolio (snd (addPosition str smb sh2 pr2 n2 t2
                      (snd (addPosition str smb sh1 pr1 n1 t1 st)))) =
         portfolio st @
           [\<lparr>symbol = formatStockCode smb, name = (if n2 \<noteq> [] then n2 else n1),
             shares = js_add sh1 sh2,
             purchasePrice = js_div (js_add (js_mul sh1 pr1) (js_mul sh2 pr2)) (js_add sh1 sh2),
             dateAdded = t1, dateModified = Some t2\<rparr>]"
proof -
  let ?st1 = "snd (addPosition str smb sh1 pr1 n1 t1 st)"
  let ?new = "\<lparr>symbol = formatStockCode smb, name = n1, shares = sh1, purchasePrice = pr1,
                dateAdded = t1, dateModified = None\<rparr>"
  have p1: "portfolio ?st1 = portfolio st @ [?new]"
    using none by (rule addPosition_new(1))
  have "find_index (\<lambda>p. symbol p = formatStockCode smb) (portfolio ?st1)
          = Some (length (portfolio st))"
    unfolding p1 using none by (rule two_adds_generic(1))
  then have "portfolio (snd (addPosition str smb sh2 pr2 n2 t2 ?st1)) =
      (portfolio ?st1)[length (portfolio st) :=
         merge_position (portfolio ?st1 ! length (portfolio st)) sh2 pr2 n2 t2]"
    by (rule addPosition_merge(1))
  also have "\<dots> = portfolio st @
           [\<lparr>symbol = formatStockCode smb, name = (if n2 \<noteq> [] then n2 else n1),
             shares = js_add sh1 sh2,
             purchasePrice = js_div (js_add (js_mul sh1 pr1) (js_mul sh2 pr2)) (js_add sh1 sh2),
             dateAdded = t1, dateModified = Some t2\<rparr>]"
    unfolding p1 using none by (rule two_adds_generic(2))
  finally show ?thesis .
qed

lemma addPosition_p2_twice:
  assumes none: "find_index (\<lambda>p. symbol p = formatStockCode_p2 smb) (portfolio st) = None"
  shows "portfolio (snd (addPosition_p2 str smb sh2 pr2 n2 t2
                      (snd (addPosition_p2 str smb sh1 pr1 n1 t1 st)))) =
         portfolio st @
           [\<lparr>symbol = formatStockCode_p2 smb, name = (if n2 \<noteq> [] then n2 else n1),
             shares = js_add sh1 sh2,
             purchasePrice = js_div (js_add (js_mul sh1 pr1) (js_mul sh2 pr2)) (js_add sh1 sh2),
             dateAdded = t1, dateModified = Some t2\<rparr>]"
proof -
  let ?st1 = "snd (addPosition_p2 str smb sh1 pr1 n1 t1 st)"
  let ?new = "\<lparr>symbol = formatStockCode_p2 smb, name = n1, shares = sh1, purchasePrice = pr1,
                dateAdded = t1, dateModified = None\<rparr>"
  have p1: "portfolio ?st1 = portfolio st @ [?new]"
    using none by (rule addPosition_p2_new(1))
  have "find_index (\<lambda>p. symbol p = formatStockCode_p2 smb) (portfolio ?st1)
          = Some (length (portfolio st))"
    unfolding p1 using none by (rule two_adds_generic(1))
  then have "portfolio (snd (addPosition_p2 str smb sh2 pr2 n2 t2 ?st1)) =
      (portfolio ?st1)[length (portfolio st) :=
         merge_position (portfolio ?st1 ! length (portfolio st)) sh2 pr2 n2 t2]"
    by (rule addPosition_p2_merge(1))
  also have "\<dots> = portfolio st @
           [\<lparr>symbol = formatStockCode_p2 smb, name = (if n2 \<noteq> [] then n2 else n1),
             shares = js_add sh1 sh2,
             purchasePrice = js_div (js_add (js_mul sh1 pr1) (js_mul sh2 pr2)) (js_add sh1 sh2),
             dateAdded = t1, dateModified = Some t2\<rparr>]"
    unfolding p1 using none by (rule two_adds_generic(2))
  finally show ?thesis .
qed

text \<open>
  C1, as amended. For every portfolio that holds no position for the formatted symbol,
  calling \<open>add\<close> twice with the same symbol, first with shares \<open>s1\<close> at price
  \<open>p1\<close> and then with shares \<open>s2\<close> at price \<open>p2\<close> (\<open>s1 + s2\<close> not zero), yields
  the portfolio extended by one position, the only one for that formatted symbol, with
  shares \<open>s1 + s2\<close> and purchase price \<open>(s1 * p1 + s2 * p2) / (s1 + s2)\<close>. This holds
  in both files.
\<close>

theorem add_twice_weighted_average:
  "(s1 + s2 \<noteq> 0 \<and> formatStockCode smb \<notin> symbol ` set (portfolio st) \<longrightarrow>
      (let after = portfolio (snd (addPosition str smb (Fin s2) (Fin p2) n2 t2
                             (snd (addPosition str smb (Fin s1) (Fin p1) n1 t1 st))));
           merged = \<lparr>symbol = formatStockCode smb, name = (if n2 \<noteq> [] then n2 else n1),
                     shares = Fin (s1 + s2),
                     purchasePrice = Fin ((s1 * p1 + s2 * p2) / (s1 + s2)),
                     dateAdded = t1, dateModified = Some t2\<rparr>
       in after = portfolio st @ [merged] \<and>
          filter (\<lambda>p. symbol p = formatStockCode smb) after = [merged])) \<and>
   (s1 + s2 \<noteq> 0 \<and> formatStockCode_p2 smb \<notin> symbol ` set (portfolio st) \<longrightarrow>
      (let after = portfolio (snd (addPosition_p2 str smb (Fin s2) (Fin p2) n2 t2
                             (snd (addPosition_p2 str smb (Fin s1) (Fin p1) n1 t1 st))));
           merged = \<lparr>symbol = formatStockCode_p2 smb, name = (if n2 \<noteq> [] then n2 else n1),
                     shares = Fin (s1 + s2),
                     purchasePrice = Fin ((s1 * p1 + s2 * p2) / (s1 + s2)),
                     dateAdded = t1, dateModified = Some t2\<rparr>
       in after = portfolio st @ [merged] \<and>
          filter (\<lambda>p. symbol p = formatStockCode_p2 smb) after = [merged]))"
proof (intro conjI impI)
  assume h: "s1 + s2 \<noteq> 0 \<and> formatStockCode smb \<notin> symbol ` set (portfolio st)"
  then have none: "find_index (\<lambda>p. symbol p = formatStockCode smb) (portfolio st) = None"
    by (simp only: not_held)
  from h have nz: "s1 + s2 \<noteq> 0" by simp
  show "let after = portfolio (snd (addPosition str smb (Fin s2) (Fin p2) n2 t2
                             (snd (addPosition str smb (Fin s1) (Fin p1) n1 t1 st))));
           merged = \<lparr>symbol = formatStockCode smb, name = (if n2 \<noteq> [] then n2 else n1),
                     shares = Fin (s1 + s2),
                     purchasePrice = Fin ((s1 * p1 + s2 * p2) / (s1 + s2)),
                     dateAdded = t1, dateModified = Some t2\<rparr>
       in after = portfolio st @ [merged] \<and>
          filter (\<lambda>p. symbol p = formatStockCode smb) after = [merged]"
    unfolding Let_def addPosition_twice [OF none]
    using nz none by (simp add: filter_none)
next
  assume h: "s1 + s2 \<noteq> 0 \<and> formatStockCode_p2 smb \<notin> symbol ` set (portfolio st)"
  then have none: "find_index (\<lambda>p. symbol p = formatStockCode_p2 smb) (portfolio st) = None"
    by (simp only: not_held)
  from h have nz: "s1 + s2 \<noteq> 0" by simp
  show "let after = portfolio (snd (addPosition_p2 str smb (Fin s2) (Fin p2) n2 t2
                             (snd (addPosition_p2 str smb (Fin s1) (Fin p1) n1 t1 st))));
           merged = \<lparr>symbol = formatStockCode_p2 smb, name = (if n2 \<noteq> [] then n2 else n1),
                     shares = Fin (s1 + s2),
                     purchasePrice = Fin ((s1 * p1 + s2 * p2) / (s1 + s2)),
                     dateAdded = t1, dateModified = Some t2\<rparr>
       in after = portfolio st @ [merged] \<and>
          filter (\<lambda>p. symbol p = formatStockCode_p2 smb) after = [merged]"
    unfolding Let_def addPosition_p2_twice [OF none]
    using nz none by (simp add: filter_none)
qed

theorem add_twice_weighted_average_witness:
  "portfolio (snd (addPosition (\<lambda>ps. []) ''600000'' (Fin 100) (Fin 12) [] ''t2''
             (snd (addPosition (\<lambda>ps. []) ''600000'' (Fin 100) (Fin 10) [] ''t1'' st_empty)))) =
     [\<lparr>symbol = ''600000.SH'', name = [], shares = Fin 200, purchasePrice = Fin 11,
       dateAdded = ''t1'', dateModified = Some ''t2''\<rparr>] \<and>
   portfolio (snd (addPosition_p2 (\<lambda>ps. []) ''600000'' (Fin 100) (Fin 12) [] ''t2''
             (snd (addPosition_p2 (\<lambda>ps. []) ''600000'' (Fin 100) (Fin 10) [] ''t1'' st_empty)))) =
     [\<lparr>symbol = ''sh600000'', name = [], shares = Fin 200, purchasePrice = Fin 11,
       dateAdded = ''t1'', dateModified = Some ''t2''\<rparr>]"
proof -
  have held: "portfolio st_empty = []" by (simp add: st_empty_def)
  have f1: "formatStockCode ''600000'' = ''600000.SH''"
    by (simp add: formatStockCode_def startsWith_def)
  have f2: "formatStockCode_p2 ''600000'' = ''sh600000''"
    by (simp add: formatStockCode_p2_def startsWith_def)
  have avg: "((100::real) * 10 + 100 * 12) / (100 + 100) = 11" by simp
  from add_twice_weighted_average
         [of 100 100 "''600000''" st_empty "\<lambda>ps. []" 12 "[]" "''t2''" 10 "[]" "''t1''"]
  show ?thesis
    unfolding Let_def held f1 f2 avg by simp
qed

text \<open>
  The claim as stated fails for a portfolio that already holds the symbol: with 50
  shares at 8 held, adding 100 at 10 and 100 at 12 leaves one position of 250 shares at
  10.4, not of 200 shares at 11.
\<close>

theorem add_twice_weighted_average_counterexample:
  "formatStockCode ''600000'' \<in> symbol ` set (portfolio st_held) \<and>
   map shares (portfolio (snd (addPosition (\<lambda>ps. []) ''600000'' (Fin 100) (Fin 12) [] ''t2''
             (snd (addPosition (\<lambda>ps. []) ''600000'' (Fin 100) (Fin 10) [] ''t1'' st_held))))) =
     [Fin 250] \<and>
   map purchasePrice (portfolio (snd (addPosition (\<lambda>ps. []) ''600000'' (Fin 100) (Fin 12) [] ''t2''
             (snd (addPosition (\<lambda>ps. []) ''600000'' (Fin 100) (Fin 10) [] ''t1'' st_held))))) =
     [Fin (52 / 5)] \<and>
   Fin 250 \<noteq> Fin (100 + 100) \<and>
   Fin (52 / 5) \<noteq> Fin ((100 * 10 + 100 * 12) / (100 + 100))"
  by (simp add: addPosition_def Let_def formatStockCode_def startsWith_def savePortfolio_def
        merge_position_def st_held_def)

text \<open>
  C7. The claim: for a symbol not yet held, \<open>add\<close> appends a new position with its
  creation time, persists the portfolio and returns the new position, without raising
  an error. In \<open>src/unnamed/part_002\<close> it does. In \<open>src/index.js\<close> the position is
  appended and persisted, and then the \<open>return\<close> raises a \<open>ReferenceError\<close>
  instead of returning the position.
\<close>

theorem add_new_position_result:
  "(formatStockCode smb \<notin> symbol ` set (portfolio st) \<and> writable st \<longrightarrow>
      (let new = \<lparr>symbol = formatStockCode smb, name = nm, shares = sh, purchasePrice = pr,
                  dateAdded = now, dateModified = None\<rparr>;
           res = addPosition str smb sh pr nm now st
       in portfolio (snd res) = portfolio st @ [new] \<and>
          portfolioFile (snd res) = Some (str (portfolio st @ [new])) \<and>
          fst res = Inl ReferenceError)) \<and>
   (formatStockCode_p2 smb \<notin> symbol ` set (portfolio st) \<and> writable st \<longrightarrow>
      (let new = \<lparr>symbol = formatStockCode_p2 smb, name = nm, shares = sh, purchasePrice = pr,
                  dateAdded = now, dateModified = None\<rparr>;
           res = addPosition_p2 str smb sh pr nm now st
       in portfolio (snd res) = portfolio st @ [new] \<and>
          portfolioFile (snd res) = Some (str (portfolio st @ [new])) \<and>
          fst res = Inr new))"
proof (intro conjI impI)
  assume h: "formatStockCode smb \<notin> symbol ` set (portfolio st) \<and> writable st"
  then have none: "find_index (\<lambda>p. symbol p = formatStockCode smb) (portfolio st) = None"
    by (simp only: not_held)
  from h show "let new = \<lparr>symbol = formatStockCode smb, name = nm, shares = sh, purchasePrice = pr,
                  dateAdded = now, dateModified = None\<rparr>;
           res = addPosition str smb sh pr nm now st
       in portfolio (snd res) = portfolio st @ [new] \<and>
          portfolioFile (snd res) = Some (str (portfolio st @ [new])) \<and>
          fst res = Inl ReferenceError"
    unfolding Let_def addPosition_new [OF none] by simp
next
  assume h: "formatStockCode_p2 smb \<notin> symbol ` set (portfolio st) \<and> writable st"
  then have none: "find_index (\<lambda>p. symbol p = formatStockCode_p2 smb) (portfolio st) = None"
    by (simp only: not_held)
  from h show "let new = \<lparr>symbol = formatStockCode_p2 smb, name = nm, shares = sh, purchasePrice = pr,
                  dateAdded = now, dateModified = None\<rparr>;
           res = addPosition_p2 str smb sh pr nm now st
       in portfolio (snd res) = portfolio st @ [new] \<and>
          portfolioFile (snd res) = Some (str (portfolio st @ [new])) \<and>
          fst res = Inr new"
    unfolding Let_def addPosition_p2_new [OF none] by simp
qed

theorem add_new_position_result_witness:
  "fst (addPosition (\<lambda>ps. []) ''600000'' (Fin 100) (Fin 10) [] ''t1'' st_empty) = Inl ReferenceError \<and>
   portfolio (snd (addPosition (\<lambda>ps. []) ''600000'' (Fin 100) (Fin 10) [] ''t1'' st_empty)) =
     [\<lparr>symbol = ''600000.SH'', name = [], shares = Fin 100, purchasePrice = Fin 10,
       dateAdded = ''t1'', dateModified = None\<rparr>] \<and>
   fst (addPosition_p2 (\<lambda>ps. []) ''600000'' (Fin 100) (Fin 10) [] ''t1'' st_empty) =
     Inr \<lparr>symbol = ''sh600000'', name = [], shares = Fin 100, purchasePrice = Fin 10,
          dateAdded = ''t1'', dateModified = None\<rparr>"
proof -
  have e: "portfolio st_empty = []" and w: "writable st_empty"
    by (simp_all add: st_empty_def)
  have f1: "formatStockCode ''600000'' = ''600000.SH''"
    by (simp add: formatStockCode_def startsWith_def)
  have f2: "formatStockCode_p2 ''600000'' = ''sh600000''"
    by (simp add: formatStockCode_p2_def startsWith_def)
  from add_new_position_result
         [of "''600000''" st_empty "[]" "Fin 100" "Fin 10" "''t1''" "\<lambda>ps. []"] w
  show ?thesis
    unfolding Let_def e f1 f2 by simp
qed

section \<open>Merging into a held position\<close>

lemma not_finite_div_cancel: "\<not> is_finite (js_div x (js_add s (js_neg s)))"
  by (cases s; cases x) simp_all

lemma cancel_shares: "is_finite s \<Longrightarrow> js_add s (js_neg s) = Fin 0"
  by (cases s) simp_all

text \<open>
  C9. The division of the weighted average is not guarded, and the shares and the price
  are not validated: for every held position, with shares \<open>held\<close>, \<open>add\<close> with
  shares \<open>-held\<close> and any price stores a purchase price that is not finite (\<open>NaN\<close>
  or an infinity); when \<open>held\<close> is finite the total of the shares, the divisor, is
  zero. No error is raised: where the save succeeds the call returns the position. This
  holds in both files.
\<close>

theorem add_negated_shares_not_finite:
  "(find_index (\<lambda>p. symbol p = formatStockCode smb) (portfolio st) = Some i \<longrightarrow>
      (let held = shares (portfolio st ! i);
           res = addPosition str smb (js_neg held) pr nm now st
       in \<not> is_finite (purchasePrice (portfolio (snd res) ! i)) \<and>
          (is_finite held \<longrightarrow> shares (portfolio (snd res) ! i) = Fin 0) \<and>
          (writable st \<longrightarrow> fst res = Inr (portfolio (snd res) ! i)))) \<and>
   (find_index (\<lambda>p. symbol p = formatStockCode_p2 smb) (portfolio st) = Some i \<longrightarrow>
      (let held = shares (portfolio st ! i);
           res = addPosition_p2 str smb (js_neg held) pr nm now st
       in \<not> is_finite (purchasePrice (portfolio (snd res) ! i)) \<and>
          (is_finite held \<longrightarrow> shares (portfolio (snd res) ! i) = Fin 0) \<and>
          (writable st \<longrightarrow> fst res = Inr (portfolio (snd res) ! i))))"
proof (intro conjI impI)
  assume found: "find_index (\<lambda>p. symbol p = formatStockCode smb) (portfolio st) = Some i"
  then have "i < length (portfolio st)" by (simp add: find_index_Some)
  then show "let held = shares (portfolio st ! i);
           res = addPosition str smb (js_neg held) pr nm now st
       in \<not> is_finite (purchasePrice (portfolio (snd res) ! i)) \<and>
          (is_finite held \<longrightarrow> shares (portfolio (snd res) ! i) = Fin 0) \<and>
          (writable st \<longrightarrow> fst res = Inr (portfolio (snd res) ! i))"
    unfolding Let_def addPosition_merge [OF found]
    by (simp add: merge_position_fields not_finite_div_cancel cancel_shares)
next
  assume found: "find_index (\<lambda>p. symbol p = formatStockCode_p2 smb) (portfolio st) = Some i"
  then have "i < length (portfolio st)" by (simp add: find_index_Some)
  then show "let held = shares (portfolio st ! i);
           res = addPosition_p2 str smb (js_neg held) pr nm now st
       in \<not> is_finite (purchasePrice (portfolio (snd res) ! i)) \<and>
          (is_finite held \<longrightarrow> shares (portfolio (snd res) ! i) = Fin 0) \<and>
          (writable st \<longrightarrow> fst res = Inr (portfolio (snd res) ! i))"
    unfolding Let_def addPosition_p2_merge [OF found]
    by (simp add: merge_position_fields not_finite_div_cancel cancel_shares)
qed

theorem add_negated_shares_not_finite_witness:
  "\<not> is_finite (purchasePrice (portfolio (snd (addPosition (\<lambda>ps. []) ''600000'' (Fin (- 50)) (Fin 9)
       [] ''t1'' st_held)) ! 0)) \<and>
   shares (portfolio (snd (addPosition (\<lambda>ps. []) ''600000'' (Fin (- 50)) (Fin 9)
       [] ''t1'' st_held)) ! 0) = Fin 0 \<and>
   fst (addPosition (\<lambda>ps. []) ''600000'' (Fin (- 50)) (Fin 9) [] ''t1'' st_held) =
     Inr \<lparr>symbol = ''600000.SH'', name = ''PuFa'', shares = Fin 0, purchasePrice = NInf,
          dateAdded = ''t0'', dateModified = Some ''t1''\<rparr> \<and>
   \<not> is_finite (purchasePrice (portfolio (snd (addPosition_p2 (\<lambda>ps. []) ''600000'' (Fin (- 50)) (Fin 9)
       [] ''t1'' st_held_p2)) ! 0)) \<and>
   shares (portfolio (snd (addPosition_p2 (\<lambda>ps. []) ''600000'' (Fin (- 50)) (Fin 9)
       [] ''t1'' st_held_p2)) ! 0) = Fin 0 \<and>
   fst (addPosition_p2 (\<lambda>ps. []) ''600000'' (Fin (- 50)) (Fin 9) [] ''t1'' st_held_p2) =
     Inr \<lparr>symbol = ''sh600000'', name = ''PuFa'', shares = Fin 0, purchasePrice = NInf,
          dateAdded = ''t0'', dateModified = Some ''t1''\<rparr>"
proof -
  have f1: "find_index (\<lambda>p. symbol p = formatStockCode ''600000'') (portfolio st_held) = Some 0"
    by (simp add: st_held_def formatStockCode_def startsWith_def)
  have f2: "find_index (\<lambda>p. symbol p = formatStockCode_p2 ''600000'') (portfolio st_held_p2) = Some 0"
    by (simp add: st_held_p2_def formatStockCode_p2_def startsWith_def)
  have h1: "shares (portfolio st_held ! 0) = Fin 50" by (simp add: st_held_def)
  have h2: "shares (portfolio st_held_p2 ! 0) = Fin 50" by (simp add: st_held_p2_def)
  have w1: "writable st_held" by (simp add: st_held_def)
  have w2: "writable st_held_p2" by (simp add: st_held_p2_def)
  have v1: "portfolio (snd (addPosition (\<lambda>ps. []) ''600000'' (Fin (- 50)) (Fin 9) [] ''t1'' st_held)) ! 0 =
     \<lparr>symbol = ''600000.SH'', name = ''PuFa'', shares = Fin 0, purchasePrice = NInf,
          dateAdded = ''t0'', dateModified = Some ''t1''\<rparr>"
    by (simp add: addPosition_def Let_def formatStockCode_def startsWith_def savePortfolio_def
          merge_position_def st_held_def)
  have v2: "portfolio (snd (addPosition_p2 (\<lambda>ps. []) ''600000'' (Fin (- 50)) (Fin 9) [] ''t1'' st_held_p2)) ! 0 =
     \<lparr>symbol = ''sh600000'', name = ''PuFa'', shares = Fin 0, purchasePrice = NInf,
          dateAdded = ''t0'', dateModified = Some ''t1''\<rparr>"
    by (simp add: addPosition_p2_def Let_def formatStockCode_p2_def startsWith_def savePortfolio_def
          merge_position_def st_held_p2_def)
  from add_negated_shares_not_finite [of "''600000''" st_held 0 "\<lambda>ps. []" "Fin 9" "[]" "''t1''"] f1 w1
  have "\<not> is_finite (purchasePrice (portfolio (snd (addPosition (\<lambda>ps. []) ''600000'' (Fin (- 50)) (Fin 9)
       [] ''t1'' st_held)) ! 0))"
    and "shares (portfolio (snd (addPosition (\<lambda>ps. []) ''600000'' (Fin (- 50)) (Fin 9)
       [] ''t1'' st_held)) ! 0) = Fin 0"
    and "fst (addPosition (\<lambda>ps. []) ''600000'' (Fin (- 50)) (Fin 9) [] ''t1'' st_held) =
       Inr (portfolio (snd (addPosition (\<lambda>ps. []) ''600000'' (Fin (- 50)) (Fin 9)
       [] ''t1'' st_held)) ! 0)"
    unfolding Let_def h1 by simp_all
  moreover
  from add_negated_shares_not_finite [of "''600000''" st_held_p2 0 "\<lambda>ps. []" "Fin 9" "[]" "''t1''"] f2 w2
  have "\<not> is_finite (purchasePrice (portfolio (snd (addPosition_p2 (\<lambda>ps. []) ''600000'' (Fin (- 50)) (Fin 9)
       [] ''t1'' st_held_p2)) ! 0))"
    and "shares (portfolio (snd (addPosition_p2 (\<lambda>ps. []) ''600000'' (Fin (- 50)) (Fin 9)
       [] ''t1'' st_held_p2)) ! 0) = Fin 0"
    and "fst (addPosition_p2 (\<lambda>ps. []) ''600000'' (Fin (- 50)) (Fin 9) [] ''t1'' st_held_p2) =
       Inr (portfolio (snd (addPosition_p2 (\<lambda>ps. []) ''600000'' (Fin (- 50)) (Fin 9)
       [] ''t1'' st_held_p2)) ! 0)"
    unfolding Let_def h2 by simp_all
  ultimately show ?thesis unfolding v1 v2 by simp
qed

text \<open>
  C10. When \<open>add\<close> merges into a held position, the name given replaces the stored
  name only if it is not empty, and an empty name leaves the stored name as it is; the
  symbol and \<open>dateAdded\<close> of the position are not modified, and no other position is
  touched. This holds in both files.
\<close>

theorem merge_keeps_identity:
  "(find_index (\<lambda>p. symbol p = formatStockCode smb) (portfolio st) = Some i \<longrightarrow>
      (let before = portfolio st;
           after = portfolio (snd (addPosition str smb sh pr nm now st))
       in length after = length before \<and>
          name (after ! i) = (if nm = [] then name (before ! i) else nm) \<and>
          symbol (after ! i) = symbol (before ! i) \<and>
          dateAdded (after ! i) = dateAdded (before ! i) \<and>
          (\<forall>j. j \<noteq> i \<longrightarrow> after ! j = before ! j))) \<and>
   (find_index (\<lambda>p. symbol p = formatStockCode_p2 smb) (portfolio st) = Some i \<longrightarrow>
      (let before = portfolio st;
           after = portfolio (snd (addPosition_p2 str smb sh pr nm now st))
       in length after = length before \<and>
          name (after ! i) = (if nm = [] then name (before ! i) else nm) \<and>
          symbol (after ! i) = symbol (before ! i) \<and>
          dateAdded (after ! i) = dateAdded (before ! i) \<and>
          (\<forall>j. j \<noteq> i \<longrightarrow> after ! j = before ! j)))"
proof (intro conjI impI)
  assume found: "find_index (\<lambda>p. symbol p = formatStockCode smb) (portfolio st) = Some i"
  then have "i < length (portfolio st)" by (simp add: find_index_Some)
  then show "let before = portfolio st;
           after = portfolio (snd (addPosition str smb sh pr nm now st))
       in length after = length before \<and>
          name (after ! i) = (if nm = [] then name (before ! i) else nm) \<and>
          symbol (after ! i) = symbol (before ! i) \<and>
          dateAdded (after ! i) = dateAdded (before ! i) \<and>
          (\<forall>j. j \<noteq> i \<longrightarrow> after ! j = before ! j)"
    unfolding Let_def addPosition_merge(1) [OF found]
    by (simp add: merge_position_fields)
next
  assume found: "find_index (\<lambda>p. symbol p = formatStockCode_p2 smb) (portfolio st) = Some i"
  then have "i < length (portfolio st)" by (simp add: find_index_Some)
  then show "let before = portfolio st;
           after = portfolio (snd (addPosition_p2 str smb sh pr nm now st))
       in length after = length before \<and>
          name (after ! i) = (if nm = [] then name (before ! i) else nm) \<and>
          symbol (after ! i) = symbol (before ! i) \<and>
          dateAdded (after ! i) = dateAdded (before ! i) \<and>
          (\<forall>j. j \<noteq> i \<longrightarrow> after ! j = before ! j)"
    unfolding Let_def addPosition_p2_merge(1) [OF found]
    by (simp add: merge_position_fields)
qed

theorem merge_keeps_identity_witness:
  "name (portfolio (snd (addPosition (\<lambda>ps. []) ''600000'' (Fin 100) (Fin 10) [] ''t1'' st_held)) ! 0)
     = ''PuFa'' \<and>
   symbol (portfolio (snd (addPosition (\<lambda>ps. []) ''600000'' (Fin 100) (Fin 10) [] ''t1'' st_held)) ! 0)
     = ''600000.SH'' \<and>
   dateAdded (portfolio (snd (addPosition (\<lambda>ps. []) ''600000'' (Fin 100) (Fin 10) [] ''t1'' st_held)) ! 0)
     = ''t0'' \<and>
   name (portfolio (snd (addPosition_p2 (\<lambda>ps. []) ''600000'' (Fin 100) (Fin 10) ''Bank'' ''t1''
           st_held_p2)) ! 0)
     = ''Bank'' \<and>
   symbol (portfolio (snd (addPosition_p2 (\<lambda>ps. []) ''600000'' (Fin 100) (Fin 10) ''Bank'' ''t1''
           st_held_p2)) ! 0)
     = ''sh600000''"
proof -
  have f1: "find_index (\<lambda>p. symbol p = formatStockCode ''600000'') (portfolio st_held) = Some 0"
    by (simp add: st_held_def formatStockCode_def startsWith_def)
  have f2: "find_index (\<lambda>p. symbol p = formatStockCode_p2 ''600000'') (portfolio st_held_p2) = Some 0"
    by (simp add: st_held_p2_def formatStockCode_p2_def startsWith_def)
  have b1: "portfolio st_held ! 0 = \<lparr>symbol = ''600000.SH'', name = ''PuFa'', shares = Fin 50,
                            purchasePrice = Fin 8, dateAdded = ''t0'', dateModified = None\<rparr>"
    by (simp add: st_held_def)
  have b2: "portfolio st_held_p2 ! 0 = \<lparr>symbol = ''sh600000'', name = ''PuFa'', shares = Fin 50,
                            purchasePrice = Fin 8, dateAdded = ''t0'', dateModified = None\<rparr>"
    by (simp add: st_held_p2_def)
  from merge_keeps_identity [of "''600000''" st_held 0 "\<lambda>ps. []" "Fin 100" "Fin 10" "[]" "''t1''"] f1
  have "name (portfolio (snd (addPosition (\<lambda>ps. []) ''600000'' (Fin 100) (Fin 10) [] ''t1'' st_held)) ! 0)
     = ''PuFa''"
   and "symbol (portfolio (snd (addPosition (\<lambda>ps. []) ''600000'' (Fin 100) (Fin 10) [] ''t1'' st_held)) ! 0)
     = ''600000.SH''"
   and "dateAdded (portfolio (snd (addPosition (\<lambda>ps. []) ''600000'' (Fin 100) (Fin 10) [] ''t1'' st_held)) ! 0)
     = ''t0''"
    unfolding Let_def b1 by simp_all
  moreover
  from merge_keeps_identity [of "''600000''" st_held_p2 0 "\<lambda>ps. []" "Fin 100" "Fin 10" "''Bank''" "''t1''"] f2
  have "name (portfolio (snd (addPosition_p2 (\<lambda>ps. []) ''600000'' (Fin 100) (Fin 10) ''Bank'' ''t1''
           st_held_p2)) ! 0) = ''Bank''"
   and "symbol (portfolio (snd (addPosition_p2 (\<lambda>ps. []) ''600000'' (Fin 100) (Fin 10) ''Bank'' ''t1''
           st_held_p2)) ! 0) = ''sh600000''"
    unfolding Let_def b2 by simp_all
  ultimately show ?thesis by simp
qed

section \<open>Removing positions\<close>

lemma filter_keeps_all: "fs \<notin> symbol ` set ps \<Longrightarrow> filter (\<lambda>p. symbol p \<noteq> fs) ps = ps"
  by (induction ps) auto

lemma find_None: "List.find P xs = None \<longleftrightarrow> (\<forall>x \<in> set xs. \<not> P x)"
  by (induction xs) auto

lemma removePosition_absent:
  assumes "formatStockCode arg \<notin> symbol ` set (portfolio st)"
  shows "snd (removePosition str arg st) =
           (if writable st then st\<lparr>portfolioFile := Some (str (portfolio st))\<rparr> else st)"
    and "fst (removePosition str arg st) = (if writable st then Inr () else Inl WriteError)"
  using assms by (simp_all add: removePosition_def Let_def savePortfolio_def filter_keeps_all)

lemma removePosition_p2_keeps:
  assumes "formatStockCode_p2 arg \<notin> symbol ` set (portfolio st)"
  shows "portfolio (snd (removePosition_p2 str arg st)) = portfolio st"
  using assms
  by (simp add: removePosition_p2_def Let_def savePortfolio_def filter_keeps_all
           split: option.splits)

lemma removePosition_p2_not_found:
  assumes "arg \<notin> symbol ` set (portfolio st)" and "arg \<notin> name ` set (portfolio st)"
  shows "removePosition_p2 str arg st =
           (Inr (), st\<lparr>console := console st @ [''Position not found'']\<rparr>)"
proof -
  have "List.find (\<lambda>p. name p = arg \<or> symbol p = arg) (portfolio st) = None"
    using assms by (auto simp: find_None)
  then show ?thesis by (simp add: removePosition_p2_def)
qed

lemma removePosition_p2_found:
  assumes "arg \<in> symbol ` set (portfolio st) \<or> arg \<in> name ` set (portfolio st)"
  shows "removePosition_p2 str arg st =
           savePortfolio str
             (st\<lparr>portfolio := filter (\<lambda>p. symbol p \<noteq> formatStockCode_p2 arg) (portfolio st)\<rparr>)"
proof -
  have "List.find (\<lambda>p. name p = arg \<or> symbol p = arg) (portfolio st) \<noteq> None"
    using assms by (auto simp: find_None)
  then show ?thesis by (auto simp: removePosition_p2_def Let_def)
qed

text \<open>
  C5, as amended. For every portfolio and every argument whose formatted form is the
  symbol of no position, \<open>remove\<close> leaves the positions unchanged. \<open>src/index.js\<close>
  prints nothing and saves the unchanged portfolio (the file then holds it, nothing else
  of the state changes), raising no error unless that write fails, which leaves the
  state as it was. \<open>src/unnamed/part_002\<close> prints "Position not found", writes nothing and
  returns normally when the argument itself is neither the name nor the symbol of a
  position.
\<close>

theorem remove_absent_symbol:
  "(formatStockCode arg \<notin> symbol ` set (portfolio st) \<longrightarrow>
      snd (removePosition str arg st) =
        (if writable st then st\<lparr>portfolioFile := Some (str (portfolio st))\<rparr> else st) \<and>
      portfolio (snd (removePosition str arg st)) = portfolio st \<and>
      console (snd (removePosition str arg st)) = console st \<and>
      fst (removePosition str arg st) = (if writable st then Inr () else Inl WriteError)) \<and>
   (formatStockCode_p2 arg \<notin> symbol ` set (portfolio st) \<longrightarrow>
      portfolio (snd (removePosition_p2 str arg st)) = portfolio st) \<and>
   (arg \<notin> symbol ` set (portfolio st) \<and> arg \<notin> name ` set (portfolio st) \<longrightarrow>
      removePosition_p2 str arg st =
        (Inr (), st\<lparr>console := console st @ [''Position not found'']\<rparr>))"
proof (intro conjI impI)
  assume a: "formatStockCode arg \<notin> symbol ` set (portfolio st)"
  show "snd (removePosition str arg st) =
        (if writable st then st\<lparr>portfolioFile := Some (str (portfolio st))\<rparr> else st)"
    by (rule removePosition_absent(1) [OF a])
  show "portfolio (snd (removePosition str arg st)) = portfolio st"
    unfolding removePosition_absent(1) [OF a] by simp
  show "console (snd (removePosition str arg st)) = console st"
    unfolding removePosition_absent(1) [OF a] by simp
  show "fst (removePosition str arg st) = (if writable st then Inr () else Inl WriteError)"
    by (rule removePosition_absent(2) [OF a])
next
  assume "formatStockCode_p2 arg \<notin> symbol ` set (portfolio st)"
  then show "portfolio (snd (removePosition_p2 str arg st)) = portfolio st"
    by (rule removePosition_p2_keeps)
next
  assume "arg \<notin> symbol ` set (portfolio st) \<and> arg \<notin> name ` set (portfolio st)"
  then show "removePosition_p2 str arg st =
        (Inr (), st\<lparr>console := console st @ [''Position not found'']\<rparr>)"
    by (simp add: removePosition_p2_not_found)
qed

theorem remove_absent_symbol_witness:
  "portfolio (snd (removePosition (\<lambda>ps. concat (map symbol ps)) ''000001'' st_held))
     = portfolio st_held \<and>
   portfolioFile st_held = None \<and>
   portfolioFile (snd (removePosition (\<lambda>ps. concat (map symbol ps)) ''000001'' st_held))
     = Some ''600000.SH'' \<and>
   console (snd (removePosition (\<lambda>ps. concat (map symbol ps)) ''000001'' st_held)) = [] \<and>
   fst (removePosition (\<lambda>ps. concat (map symbol ps)) ''000001'' st_held) = Inr () \<and>
   portfolio (snd (removePosition_p2 (\<lambda>ps. []) ''000001'' st_held_p2)) = portfolio st_held_p2 \<and>
   portfolioFile (snd (removePosition_p2 (\<lambda>ps. []) ''000001'' st_held_p2)) = None \<and>
   console (snd (removePosition_p2 (\<lambda>ps. []) ''000001'' st_held_p2)) = [''Position not found''] \<and>
   fst (removePosition_p2 (\<lambda>ps. []) ''000001'' st_held_p2) = Inr ()"
proof -
  have a1: "formatStockCode ''000001'' \<notin> symbol ` set (portfolio st_held)"
    by (simp add: st_held_def formatStockCode_def startsWith_def)
  have a2: "formatStockCode_p2 ''000001'' \<notin> symbol ` set (portfolio st_held_p2)"
    by (simp add: st_held_p2_def formatStockCode_p2_def startsWith_def)
  have a3: "''000001'' \<notin> symbol ` set (portfolio st_held_p2) \<and>
            ''000001'' \<notin> name ` set (portfolio st_held_p2)"
    by (simp add: st_held_p2_def)
  have w: "writable st_held" and c: "console st_held = []" and c2: "console st_held_p2 = []"
    and f: "portfolioFile st_held = None" and f2: "portfolioFile st_held_p2 = None"
    and p: "concat (map symbol (portfolio st_held)) = ''600000.SH''"
    by (simp_all add: st_held_def st_held_p2_def)
  from remove_absent_symbol [of "''000001''" st_held "\<lambda>ps. concat (map symbol ps)"] a1 w c p
  have "portfolio (snd (removePosition (\<lambda>ps. concat (map symbol ps)) ''000001'' st_held))
          = portfolio st_held"
    and "portfolioFile (snd (removePosition (\<lambda>ps. concat (map symbol ps)) ''000001'' st_held))
          = Some ''600000.SH''"
    and "console (snd (removePosition (\<lambda>ps. concat (map symbol ps)) ''000001'' st_held)) = []"
    and "fst (removePosition (\<lambda>ps. concat (map symbol ps)) ''000001'' st_held) = Inr ()"
    by simp_all
  moreover
  from remove_absent_symbol [of "''000001''" st_held_p2 "\<lambda>ps. []"] a2 a3 c2 f2
  have "portfolio (snd (removePosition_p2 (\<lambda>ps. []) ''000001'' st_held_p2)) = portfolio st_held_p2"
    and "portfolioFile (snd (removePosition_p2 (\<lambda>ps. []) ''000001'' st_held_p2)) = None"
    and "console (snd (removePosition_p2 (\<lambda>ps. []) ''000001'' st_held_p2)) = [''Position not found'']"
    and "fst (removePosition_p2 (\<lambda>ps. []) ''000001'' st_held_p2) = Inr ()"
    by simp_all
  ultimately show ?thesis using f by simp
qed

text \<open>
  The claim as stated fails in \<open>src/index.js\<close>: removing a symbol that is not held
  prints nothing.
\<close>

theorem remove_absent_symbol_counterexample:
  "formatStockCode ''000001'' \<notin> symbol ` set (portfolio st_held) \<and>
   console st_held = [] \<and>
   console (snd (removePosition (\<lambda>ps. []) ''000001'' st_held)) = []"
  by (simp add: st_held_def formatStockCode_def startsWith_def removePosition_def
        savePortfolio_def)

text \<open>
  C6. The claim: \<open>remove\<close> with the display name of a position deletes that
  position and persists the result. \<open>src/unnamed/part_002\<close> finds the position by its
  name, but then filters by the formatted argument: unless that happens to be the symbol
  of a position, every position is kept, nothing is printed, and the unchanged portfolio
  is saved.
\<close>

theorem remove_by_name_keeps_position:
  "arg \<in> name ` set (portfolio st) \<and> formatStockCode_p2 arg \<notin> symbol ` set (portfolio st) \<longrightarrow>
     portfolio (snd (removePosition_p2 str arg st)) = portfolio st \<and>
     console (snd (removePosition_p2 str arg st)) = console st \<and>
     fst (removePosition_p2 str arg st) = (if writable st then Inr () else Inl WriteError)"
proof
  assume h: "arg \<in> name ` set (portfolio st) \<and> formatStockCode_p2 arg \<notin> symbol ` set (portfolio st)"
  then have "arg \<in> symbol ` set (portfolio st) \<or> arg \<in> name ` set (portfolio st)" by simp
  then have eq: "removePosition_p2 str arg st =
           savePortfolio str
             (st\<lparr>portfolio := filter (\<lambda>p. symbol p \<noteq> formatStockCode_p2 arg) (portfolio st)\<rparr>)"
    by (rule removePosition_p2_found)
  from h have keep: "filter (\<lambda>p. symbol p \<noteq> formatStockCode_p2 arg) (portfolio st) = portfolio st"
    by (simp add: filter_keeps_all)
  show "portfolio (snd (removePosition_p2 str arg st)) = portfolio st \<and>
     console (snd (removePosition_p2 str arg st)) = console st \<and>
     fst (removePosition_p2 str arg st) = (if writable st then Inr () else Inl WriteError)"
    unfolding eq keep by (simp add: savePortfolio_def)
qed

theorem remove_by_name_keeps_position_witness:
  "''PuFa'' \<in> name ` set (portfolio st_held_p2) \<and>
   portfolio (snd (removePosition_p2 (\<lambda>ps. []) ''PuFa'' st_held_p2)) = portfolio st_held_p2 \<and>
   console (snd (removePosition_p2 (\<lambda>ps. []) ''PuFa'' st_held_p2)) = [] \<and>
   fst (removePosition_p2 (\<lambda>ps. []) ''PuFa'' st_held_p2) = Inr ()"
proof -
  have a: "''PuFa'' \<in> name ` set (portfolio st_held_p2)"
    by (simp add: st_held_p2_def)
  have b: "formatStockCode_p2 ''PuFa'' \<notin> symbol ` set (portfolio st_held_p2)"
    by (simp add: st_held_p2_def formatStockCode_p2_def startsWith_def)
  have w: "writable st_held_p2" and c: "console st_held_p2 = []"
    by (simp_all add: st_held_p2_def)
  from remove_by_name_keeps_position [of "''PuFa''" st_held_p2 "\<lambda>ps. []"] a b w c
  show ?thesis by simp
qed

section \<open>Valuation\<close>

subsection \<open>The loop and the quoted positions\<close>

lemma and_then_Inr [simp]: "and_then (Inr x) f = f x"
  by (simp add: and_then_def)

lemma and_then_Inl [simp]: "and_then (Inl e) f = Inl e"
  by (simp add: and_then_def)

lemma and_then_eq_Inr: "and_then m f = Inr y \<longleftrightarrow> (\<exists>x. m = Inr x \<and> f x = Inr y)"
  by (cases m) simp_all

lemma and_then_assoc: "and_then (and_then m f) g = and_then m (\<lambda>x. and_then (f x) g)"
  by (cases m) simp_all

lemma quoted_from_Nil [simp]: "quoted_from f k [] = []"
  by (simp add: quoted_from_def)

lemma quoted_from_Cons:
  "quoted_from f k (p # ps) =
     (case f k of None \<Rightarrow> [] | Some q \<Rightarrow> [(p, q)]) @ quoted_from f (Suc k) ps"
proof -
  have "k < k + length (p # ps)" by simp
  then have "[k ..< k + length (p # ps)] = k # [Suc k ..< k + length (p # ps)]"
    by (rule upt_conv_Cons)
  moreover have "k + length (p # ps) = Suc k + length ps" by simp
  ultimately have "[k ..< k + length (p # ps)] = k # [Suc k ..< Suc k + length ps]"
    by (simp only:)
  then show ?thesis
    unfolding quoted_from_def by (simp only: zip_Cons_Cons list.map concat.simps prod.case)
qed

lemma quoted_member:
  "(p, q) \<in> set (quoted f ps) \<longleftrightarrow> (\<exists>i < length ps. ps ! i = p \<and> f i = Some q)"
proof -
  have "(p, q) \<in> set (quoted_from f k ps) \<longleftrightarrow>
          (\<exists>i < length ps. ps ! i = p \<and> f (k + i) = Some q)" for k
  proof (induction ps arbitrary: k)
    case Nil
    show ?case by simp
  next
    case (Cons a ps)
    have "(\<exists>i < length (a # ps). (a # ps) ! i = p \<and> f (k + i) = Some q) \<longleftrightarrow>
          (a = p \<and> f k = Some q) \<or> (\<exists>i < length ps. ps ! i = p \<and> f (Suc k + i) = Some q)"
      by (auto simp: less_Suc_eq_0_disj)
    then show ?case by (auto simp: quoted_from_Cons Cons.IH split: option.splits)
  qed
  from this [of 0] show ?thesis by (simp add: quoted_def)
qed

lemma loop_step_row:
  "calculate_loop ops f k (p # ps) (rs, tv, tc) =
     (case f k of
        None \<Rightarrow> calculate_loop ops f (Suc k) ps (rs, tv, tc)
      | Some q \<Rightarrow>
          and_then (row_of ops (p, q)) (\<lambda>r.
            calculate_loop ops f (Suc k) ps
              (rs @ [r], num_add ops tv (value_of ops (p, q)),
               num_add ops tc (cost_of ops (p, q)))))"
  by (simp add: Let_def row_of_def value_of_def cost_of_def profit_of_def returnPct_of_def
        and_then_def split: option.splits sum.splits)

lemma calculate_loop_quoted:
  "calculate_loop ops f k ps (rs, tv, tc) =
     and_then (rows_of ops (quoted_from f k ps)) (\<lambda>rows.
       Inr (rs @ rows,
            foldl (num_add ops) tv (map (value_of ops) (quoted_from f k ps)),
            foldl (num_add ops) tc (map (cost_of ops) (quoted_from f k ps))))"
proof (induction ps arbitrary: k rs tv tc)
  case Nil
  show ?case by simp
next
  case (Cons p ps)
  show ?case
  proof (cases "f k")
    case None
    then show ?thesis
      by (simp only: loop_step_row option.case Cons.IH quoted_from_Cons append_Nil)
  next
    case (Some q)
    show ?thesis
    proof (cases "row_of ops (p, q)")
      case (Inl e)
      with Some show ?thesis
        by (simp add: loop_step_row quoted_from_Cons del: calculate_loop.simps)
    next
      case (Inr r)
      with Some show ?thesis
        by (simp add: loop_step_row quoted_from_Cons Cons.IH and_then_assoc
              del: calculate_loop.simps)
    qed
  qed
qed

lemma calculatePortfolio_valuation_of:
  "calculatePortfolio ops f st = valuation_of ops (quoted f (portfolio st))"
  by (simp add: calculatePortfolio_def calculate_loop_quoted valuation_of_def summary_of_def
        sum_from_def quoted_def Let_def and_then_assoc)

lemma valuation_of_Inr:
  assumes "valuation_of ops valued = Inr r"
  shows "rows_of ops valued = Inr (positions r)"
    and "num_toFixed ops (sum_from ops (map (value_of ops) valued)) = Inr (totalValue (summary r))"
    and "num_toFixed ops (sum_from ops (map (cost_of ops) valued)) = Inr (totalCost (summary r))"
    and "num_toFixed ops
           (num_sub ops (sum_from ops (map (value_of ops) valued))
                        (sum_from ops (map (cost_of ops) valued)))
         = Inr (totalProfit (summary r))"
  using assms
  by (auto simp: valuation_of_def summary_of_def Let_def and_then_eq_Inr)

lemma foldl_difference:
  assumes "\<And>a b c d. sub (add a b) (add c d) = add (sub a c) (sub b d)"
  shows "sub (foldl add a (map v xs)) (foldl add c (map w xs)) =
         foldl add (sub a c) (map (\<lambda>x. sub (v x) (w x)) xs)"
  by (induction xs arbitrary: a c) (simp_all add: assms)

lemma difference_of_sums:
  assumes "difference_distributes ops"
  shows "num_sub ops (sum_from ops (map (value_of ops) valued))
                     (sum_from ops (map (cost_of ops) valued))
         = sum_from ops (map (profit_of ops) valued)"
proof -
  from assms have zero: "num_sub ops (num_zero ops) (num_zero ops) = num_zero ops"
    and dist: "\<And>a b c d. num_sub ops (num_add ops a b) (num_add ops c d) =
           num_add ops (num_sub ops a c) (num_sub ops b d)"
    by (simp_all add: difference_distributes_def)
  have "profit_of ops = (\<lambda>pq. num_sub ops (value_of ops pq) (cost_of ops pq))"
    by (simp add: profit_of_def fun_eq_iff)
  then show ?thesis
    unfolding sum_from_def
    using foldl_difference [of "num_sub ops" "num_add ops", OF dist,
            of "num_zero ops" "value_of ops" valued "num_zero ops" "cost_of ops"]
    by (simp add: zero)
qed

subsection \<open>Exact arithmetic\<close>

lemma js_add_assoc: "js_add (js_add a b) c = js_add a (js_add b c)"
  by (cases a; cases b; cases c) simp_all

lemma js_add_commute: "js_add a b = js_add b a"
  by (cases a; cases b) simp_all

lemma js_neg_add: "js_neg (js_add a b) = js_add (js_neg a) (js_neg b)"
  by (cases a; cases b) simp_all

lemma js_sub_add: "js_sub (js_add a b) (js_add c d) = js_add (js_sub a c) (js_sub b d)"
proof -
  have "js_sub (js_add a b) (js_add c d) = js_add (js_add a b) (js_add (js_neg c) (js_neg d))"
    by (simp add: js_sub_def js_neg_add)
  also have "\<dots> = js_add a (js_add b (js_add (js_neg c) (js_neg d)))"
    by (simp only: js_add_assoc)
  also have "js_add b (js_add (js_neg c) (js_neg d)) = js_add (js_neg c) (js_add b (js_neg d))"
    by (simp only: js_add_assoc [symmetric] js_add_commute [of b "js_neg c"])
  also have "js_add a (js_add (js_neg c) (js_add b (js_neg d))) =
             js_add (js_add a (js_neg c)) (js_add b (js_neg d))"
    by (simp only: js_add_assoc)
  finally show ?thesis by (simp add: js_sub_def)
qed

lemma exact_ops_distributes: "difference_distributes (exact_ops toFixed)"
  by (simp add: difference_distributes_def exact_ops_def js_sub_add) (simp add: js_sub_def)

subsection \<open>Binary64 arithmetic and null\<close>

lemma binary64_toFixed_cases:
  "num_toFixed (binary64_ops big) v =
     (case v of JNull \<Rightarrow> Inl TypeError | JNumber d \<Rightarrow> Inr (dtoFixed big d))"
  by (simp add: binary64_ops_def)

lemma binary64_results:
  "\<exists>d. num_mul (binary64_ops big) a b = JNumber d"
  "\<exists>d. num_div (binary64_ops big) a b = JNumber d"
  "\<exists>d. num_sub (binary64_ops big) a b = JNumber d"
  "\<exists>d. num_add (binary64_ops big) a b = JNumber d"
  "\<exists>d. num_zero (binary64_ops big) = JNumber d"
  by (simp_all add: binary64_ops_def)

lemma binary64_sum_from: "\<exists>d. sum_from (binary64_ops big) xs = JNumber d"
proof (cases xs rule: rev_cases)
  case Nil
  then show ?thesis by (simp add: sum_from_def binary64_results)
next
  case (snoc ys y)
  then show ?thesis by (simp add: sum_from_def binary64_results)
qed

lemma binary64_row_of:
  "row_of (binary64_ops big) pq = Inl TypeError \<and> null_figure pq \<or>
   (\<exists>r. row_of (binary64_ops big) pq = Inr r) \<and> \<not> null_figure pq"
proof -
  obtain v where v: "value_of (binary64_ops big) pq = JNumber v"
    unfolding value_of_def using binary64_results(1) by blast
  obtain p where p: "profit_of (binary64_ops big) pq = JNumber p"
    unfolding profit_of_def using binary64_results(3) by blast
  obtain r where r: "returnPct_of (binary64_ops big) pq = JNumber r"
    unfolding returnPct_of_def using binary64_results(1) by blast
  show ?thesis
    by (cases "purchasePrice (fst pq)"; cases "quote_close (snd pq)";
        cases "quote_changePercent (snd pq)")
       (simp_all add: row_of_def null_figure_def binary64_toFixed_cases v p r)
qed

lemma binary64_rows_of_null:
  "\<exists>pq \<in> set valued. null_figure pq \<Longrightarrow> rows_of (binary64_ops big) valued = Inl TypeError"
proof (induction valued)
  case Nil
  then show ?case by simp
next
  case (Cons pq rest)
  show ?case
  proof (cases "null_figure pq")
    case True
    with binary64_row_of [of big pq] show ?thesis by auto
  next
    case False
    with Cons.prems have "\<exists>pq \<in> set rest. null_figure pq" by simp
    then have "rows_of (binary64_ops big) rest = Inl TypeError" by (rule Cons.IH)
    with False binary64_row_of [of big pq] show ?thesis by auto
  qed
qed

lemma binary64_rows_of_numbers:
  "\<forall>pq \<in> set valued. \<not> null_figure pq \<Longrightarrow> \<exists>rs. rows_of (binary64_ops big) valued = Inr rs"
proof (induction valued)
  case Nil
  show ?case by simp
next
  case (Cons pq rest)
  then obtain rs where "rows_of (binary64_ops big) rest = Inr rs" by auto
  moreover from Cons.prems binary64_row_of [of big pq]
  obtain r where "row_of (binary64_ops big) pq = Inr r" by auto
  ultimately show ?case by simp
qed

lemma binary64_summary_of: "\<exists>s. summary_of (binary64_ops big) valued = Inr s"
proof -
  obtain tv where tv: "sum_from (binary64_ops big) (map (value_of (binary64_ops big)) valued)
      = JNumber tv"
    using binary64_sum_from by blast
  obtain tc where tc: "sum_from (binary64_ops big) (map (cost_of (binary64_ops big)) valued)
      = JNumber tc"
    using binary64_sum_from by blast
  obtain d where d: "num_sub (binary64_ops big) (JNumber tv) (JNumber tc) = JNumber d"
    using binary64_results(3) by blast
  obtain r where r: "num_mul (binary64_ops big)
      (num_div (binary64_ops big) (JNumber d) (JNumber tc)) (num_hundred (binary64_ops big))
      = JNumber r"
    using binary64_results(1) by blast
  show ?thesis
    by (simp add: summary_of_def Let_def tv tc d r binary64_toFixed_cases)
qed

lemma binary64_valuation_null:
  assumes "\<exists>pq \<in> set valued. null_figure pq"
  shows "valuation_of (binary64_ops big) valued = Inl TypeError"
  using binary64_rows_of_null [OF assms] by (simp add: valuation_of_def)

lemma binary64_valuation_numbers:
  assumes "\<forall>pq \<in> set valued. \<not> null_figure pq"
  shows "\<exists>result. valuation_of (binary64_ops big) valued = Inr result"
proof -
  obtain s where "summary_of (binary64_ops big) valued = Inr s"
    using binary64_summary_of by blast
  moreover obtain rs where "rows_of (binary64_ops big) valued = Inr rs"
    using binary64_rows_of_numbers [OF assms] by blast
  ultimately show ?thesis by (simp add: valuation_of_def)
qed

text \<open>Evaluating the binary64 operations on numerals.\<close>

lemmas binary64_eval =
  binary64_ops_def rnd_def quantum_def quantum_up.simps quantum_down.simps round_even_def
  dadd_def dsub_def dmul_def ddiv_def signed_zero_def signed_inf_def fixed2_def dtoFixed_def
  digits.simps Let_def

lemma literals:
  "rnd (3 / 25) = DNum (1080863910568919 / 9007199254740992)"
  "rnd (94 / 125) = DNum (3386706919782613 / 4503599627370496)"
  "rnd (943 / 1000) = DNum (8493788897220755 / 9007199254740992)"
  "rnd (41 / 125) = DNum (5908722711110091 / 18014398509481984)"
  by (simp_all add: binary64_eval)

subsection \<open>Rows and totals\<close>

text \<open>
  C2, as amended. For every portfolio and every assignment of fetch results to its
  positions, the valuation is the valuation of the successfully quoted positions, in
  portfolio order; a position whose fetch failed is not among them, so it has no row and
  adds to no total. In the number arithmetic of the language, the cost of a quoted
  position is \<open>shares * purchasePrice\<close>, its value \<open>shares * close\<close>, its profit
  \<open>value - cost\<close> and its return \<open>profit / cost * 100\<close>. When the valuation
  returns, it returns the rows of the quoted positions, figures formatted by
  \<open>toFixed(2)\<close>; \<open>totalValue\<close> and \<open>totalCost\<close> are the formatted sums, taken
  from \<open>0\<close> in portfolio order, of their values and of their costs, and
  \<open>totalProfit\<close> is the formatted difference of these two sums. That difference is
  the sum of the profits where the arithmetic is exact; under the rounding of binary64 it
  can differ from it in the last digit shown. In binary64 the valuation returns whenever
  the purchase price, the close and the percent change of every quoted position are
  numbers, and raises a \<open>TypeError\<close> when one of them is \<open>null\<close>. This holds in
  both files.
\<close>

theorem valuation_rows_and_totals:
  "calculatePortfolio ops getStockData st = valuation_of ops (quoted getStockData (portfolio st)) \<and>
   ((p, q) \<in> set (quoted getStockData (portfolio st)) \<longleftrightarrow>
      (\<exists>i < length (portfolio st). portfolio st ! i = p \<and> getStockData i = Some q)) \<and>
   (calculatePortfolio ops getStockData st = Inr result \<longrightarrow>
      (let valued = quoted getStockData (portfolio st);
           values = sum_from ops (map (value_of ops) valued);
           costs = sum_from ops (map (cost_of ops) valued)
       in rows_of ops valued = Inr (positions result) \<and>
          num_toFixed ops values = Inr (totalValue (summary result)) \<and>
          num_toFixed ops costs = Inr (totalCost (summary result)) \<and>
          num_toFixed ops (num_sub ops values costs) = Inr (totalProfit (summary result)))) \<and>
   (difference_distributes ops \<longrightarrow>
      (let valued = quoted getStockData (portfolio st)
       in num_sub ops (sum_from ops (map (value_of ops) valued))
                      (sum_from ops (map (cost_of ops) valued))
          = sum_from ops (map (profit_of ops) valued))) \<and>
   ((\<forall>pq \<in> set (quoted fetch64 (portfolio st64)). \<not> null_figure pq) \<longrightarrow>
      (\<exists>result64. calculatePortfolio (binary64_ops big) fetch64 st64 = Inr result64)) \<and>
   ((\<exists>pq \<in> set (quoted fetch64 (portfolio st64)). null_figure pq) \<longrightarrow>
      calculatePortfolio (binary64_ops big) fetch64 st64 = Inl TypeError)"
proof (intro conjI impI)
  show "calculatePortfolio ops getStockData st =
          valuation_of ops (quoted getStockData (portfolio st))"
    by (rule calculatePortfolio_valuation_of)
next
  show "(p, q) \<in> set (quoted getStockData (portfolio st)) \<longleftrightarrow>
      (\<exists>i < length (portfolio st). portfolio st ! i = p \<and> getStockData i = Some q)"
    by (rule quoted_member)
next
  assume "calculatePortfolio ops getStockData st = Inr result"
  then have v: "valuation_of ops (quoted getStockData (portfolio st)) = Inr result"
    by (simp only: calculatePortfolio_valuation_of)
  show "let valued = quoted getStockData (portfolio st);
           values = sum_from ops (map (value_of ops) valued);
           costs = sum_from ops (map (cost_of ops) valued)
       in rows_of ops valued = Inr (positions result) \<and>
          num_toFixed ops values = Inr (totalValue (summary result)) \<and>
          num_toFixed ops costs = Inr (totalCost (summary result)) \<and>
          num_toFixed ops (num_sub ops values costs) = Inr (totalProfit (summary result))"
    unfolding Let_def using valuation_of_Inr [OF v] by simp
next
  assume "difference_distributes ops"
  then show "let valued = quoted getStockData (portfolio st)
       in num_sub ops (sum_from ops (map (value_of ops) valued))
                      (sum_from ops (map (cost_of ops) valued))
          = sum_from ops (map (profit_of ops) valued)"
    unfolding Let_def by (rule difference_of_sums)
next
  assume "\<forall>pq \<in> set (quoted fetch64 (portfolio st64)). \<not> null_figure pq"
  then show "\<exists>result64. calculatePortfolio (binary64_ops big) fetch64 st64 = Inr result64"
    unfolding calculatePortfolio_valuation_of by (rule binary64_valuation_numbers)
next
  assume "\<exists>pq \<in> set (quoted fetch64 (portfolio st64)). null_figure pq"
  then show "calculatePortfolio (binary64_ops big) fetch64 st64 = Inl TypeError"
    unfolding calculatePortfolio_valuation_of by (rule binary64_valuation_null)
qed

theorem valuation_rows_and_totals_witness:
  "calculatePortfolio (binary64_ops (\<lambda>x. [])) fetch_first_only st_example =
     Inr \<lparr>positions =
            [\<lparr>row_symbol = ''sh600000'', row_name = ''PuFa'', row_shares = JNumber (DNum 100),
          row_purchasePrice = ''10.00'', row_currentPrice = ''11.00'',
          row_todayChange = ''1.00%'', row_value = ''1100.00'', row_profit = ''100.00'',
          row_return = ''10.00%''\<rparr>],
          summary =
            \<lparr>totalValue = ''1100.00'', totalCost = ''1000.00'',
            totalProfit = ''100.00'', totalReturn = ''10.00''\<rparr>\<rparr> \<and>
   num_toFixed (binary64_ops (\<lambda>x. []))
     (sum_from (binary64_ops (\<lambda>x. []))
        (map (value_of (binary64_ops (\<lambda>x. [])))
           (quoted fetch_first_only (portfolio st_example)))) = Inr ''1100.00'' \<and>
   difference_distributes (exact_ops (\<lambda>x. [])) \<and>
   num_sub (exact_ops (\<lambda>x. []))
     (sum_from (exact_ops (\<lambda>x. []))
        (map (value_of (exact_ops (\<lambda>x. []))) (quoted fetch_exact (portfolio st_exact))))
     (sum_from (exact_ops (\<lambda>x. []))
        (map (cost_of (exact_ops (\<lambda>x. []))) (quoted fetch_exact (portfolio st_exact))))
   = Fin 100 \<and>
   (\<exists>pq \<in> set (quoted fetch_cents (portfolio st_null_price)). null_figure pq) \<and>
   calculatePortfolio (binary64_ops (\<lambda>x. [])) fetch_cents st_null_price = Inl TypeError"
proof -
  let ?ops = "binary64_ops (\<lambda>x. [])"
  let ?pq1 =
      "(\<lparr>symbol = ''sh600000'', name = ''PuFa'', shares = JNumber (DNum 100),
         purchasePrice = JNumber (DNum 10), dateAdded = ''t0'', dateModified = None\<rparr>,
        \<lparr>quote_close = JNumber (DNum 11), quote_changePercent = JNumber (DNum 1)\<rparr>)"
  have q: "quoted fetch_first_only (portfolio st_example) = [?pq1]"
    by (simp add: quoted_def quoted_from_def st_example_def fetch_first_only_def upt_conv_Cons literals)
  have c1: "cost_of ?ops ?pq1 = JNumber (DNum 1000)"
    by (simp add: cost_of_def binary64_eval)
  have v1: "value_of ?ops ?pq1 = JNumber (DNum 1100)"
    by (simp add: value_of_def binary64_eval)
  have p1: "profit_of ?ops ?pq1 = JNumber (DNum 100)"
    unfolding profit_of_def c1 v1 by (simp add: binary64_eval)
  have d1: "num_div ?ops (JNumber (DNum 100)) (JNumber (DNum 1000)) = JNumber (DNum (3602879701896397 / 36028797018963968))"
    by (simp add: binary64_eval)
  have r1: "returnPct_of ?ops ?pq1 = JNumber (DNum 10)"
    unfolding returnPct_of_def p1 c1 d1 by (simp add: binary64_eval)
  have row1: "row_of ?ops ?pq1 =
      Inr \<lparr>row_symbol = ''sh600000'', row_name = ''PuFa'', row_shares = JNumber (DNum 100),
          row_purchasePrice = ''10.00'', row_currentPrice = ''11.00'',
          row_todayChange = ''1.00%'', row_value = ''1100.00'', row_profit = ''100.00'',
          row_return = ''10.00%''\<rparr>"
    unfolding row_of_def v1 p1 r1 by (simp add: binary64_eval)
  have tv1: "num_add ?ops (JNumber (DNum 0)) (JNumber (DNum 1100)) = JNumber (DNum 1100)"
    by (simp add: binary64_eval)
  have tc1: "num_add ?ops (JNumber (DNum 0)) (JNumber (DNum 1000)) = JNumber (DNum 1000)"
    by (simp add: binary64_eval)
  have sp1: "num_add ?ops (JNumber (DNum 0)) (JNumber (DNum 100)) = JNumber (DNum 100)"
    by (simp add: binary64_eval)
  have zero: "num_zero ?ops = JNumber (DNum 0)"
    by (simp add: binary64_ops_def)
  have sum_values: "sum_from ?ops (map (value_of ?ops) [?pq1]) = JNumber (DNum 1100)"
    unfolding sum_from_def list.map foldl.simps zero v1 tv1 by simp
  have sum_costs: "sum_from ?ops (map (cost_of ?ops) [?pq1]) = JNumber (DNum 1000)"
    unfolding sum_from_def list.map foldl.simps zero c1 tc1 by simp
  have sum_profits: "sum_from ?ops (map (profit_of ?ops) [?pq1]) = JNumber (DNum 100)"
    unfolding sum_from_def list.map foldl.simps zero p1 sp1 by simp
  have difference: "num_sub ?ops (JNumber (DNum 1100)) (JNumber (DNum 1000)) = JNumber (DNum 100)"
    by (simp add: binary64_eval)
  have quotient: "num_div ?ops (JNumber (DNum 100)) (JNumber (DNum 1000)) = JNumber (DNum (3602879701896397 / 36028797018963968))"
    by (simp add: binary64_eval)
  have percent: "num_mul ?ops (JNumber (DNum (3602879701896397 / 36028797018963968))) (num_hundred ?ops) = JNumber (DNum 10)"
    by (simp add: binary64_eval)
  have summary_eq: "summary_of ?ops [?pq1] =
      Inr \<lparr>totalValue = ''1100.00'', totalCost = ''1000.00'',
            totalProfit = ''100.00'', totalReturn = ''10.00''\<rparr>"
    unfolding summary_of_def Let_def sum_values sum_costs difference quotient percent
    by (simp add: binary64_eval)
  have rows_eq: "rows_of ?ops [?pq1] =
      Inr [\<lparr>row_symbol = ''sh600000'', row_name = ''PuFa'', row_shares = JNumber (DNum 100),
          row_purchasePrice = ''10.00'', row_currentPrice = ''11.00'',
          row_todayChange = ''1.00%'', row_value = ''1100.00'', row_profit = ''100.00'',
          row_return = ''10.00%''\<rparr>]"
    unfolding rows_of.simps row1 by simp
  have valuation: "valuation_of ?ops (quoted fetch_first_only (portfolio st_example)) =
      Inr \<lparr>positions =
            [\<lparr>row_symbol = ''sh600000'', row_name = ''PuFa'', row_shares = JNumber (DNum 100),
          row_purchasePrice = ''10.00'', row_currentPrice = ''11.00'',
          row_todayChange = ''1.00%'', row_value = ''1100.00'', row_profit = ''100.00'',
          row_return = ''10.00%''\<rparr>],
          summary =
            \<lparr>totalValue = ''1100.00'', totalCost = ''1000.00'',
            totalProfit = ''100.00'', totalReturn = ''10.00''\<rparr>\<rparr>"
    unfolding q valuation_of_def rows_eq summary_eq by simp
  let ?result =
     "\<lparr>positions =
            [\<lparr>row_symbol = ''sh600000'', row_name = ''PuFa'', row_shares = JNumber (DNum 100),
          row_purchasePrice = ''10.00'', row_currentPrice = ''11.00'',
          row_todayChange = ''1.00%'', row_value = ''1100.00'', row_profit = ''100.00'',
          row_return = ''10.00%''\<rparr>],
          summary =
            \<lparr>totalValue = ''1100.00'', totalCost = ''1000.00'',
            totalProfit = ''100.00'', totalReturn = ''10.00''\<rparr>\<rparr>"
  have numbers: "\<forall>pq \<in> set (quoted fetch_first_only (portfolio st_example)). \<not> null_figure pq"
    unfolding q by (simp add: null_figure_def)
  note claim =
    valuation_rows_and_totals
      [of ?ops fetch_first_only st_example _ _ ?result fetch_first_only st_example "\<lambda>x. []"]
  from claim numbers
  have returns: "\<exists>r. calculatePortfolio ?ops fetch_first_only st_example = Inr r"
    by blast
  from claim valuation
  have run: "calculatePortfolio ?ops fetch_first_only st_example = Inr ?result"
    by simp
  with claim have total: "num_toFixed ?ops
     (sum_from ?ops (map (value_of ?ops) (quoted fetch_first_only (portfolio st_example))))
       = Inr ''1100.00''"
    by (simp add: Let_def)
  have d: "difference_distributes (exact_ops (\<lambda>x. []))"
    by (rule exact_ops_distributes)
  have qe: "quoted fetch_exact (portfolio st_exact) =
      [(\<lparr>symbol = ''sh600000'', name = ''PuFa'', shares = Fin 100,
         purchasePrice = Fin 10, dateAdded = ''t0'', dateModified = None\<rparr>,
        \<lparr>quote_close = Fin 11, quote_changePercent = Fin 1\<rparr>)]"
    by (simp add: quoted_def quoted_from_def st_exact_def fetch_exact_def)
  from valuation_rows_and_totals [of "exact_ops (\<lambda>x. [])" fetch_exact st_exact] d
  have "num_sub (exact_ops (\<lambda>x. []))
     (sum_from (exact_ops (\<lambda>x. []))
        (map (value_of (exact_ops (\<lambda>x. []))) (quoted fetch_exact (portfolio st_exact))))
     (sum_from (exact_ops (\<lambda>x. []))
        (map (cost_of (exact_ops (\<lambda>x. []))) (quoted fetch_exact (portfolio st_exact))))
   = sum_from (exact_ops (\<lambda>x. []))
        (map (profit_of (exact_ops (\<lambda>x. []))) (quoted fetch_exact (portfolio st_exact)))"
    by (simp add: Let_def)
  also have "\<dots> = Fin 100"
    unfolding qe
    by (simp add: sum_from_def profit_of_def value_of_def cost_of_def exact_ops_def js_sub_def)
  finally have exact: "num_sub (exact_ops (\<lambda>x. []))
     (sum_from (exact_ops (\<lambda>x. []))
        (map (value_of (exact_ops (\<lambda>x. []))) (quoted fetch_exact (portfolio st_exact))))
     (sum_from (exact_ops (\<lambda>x. []))
        (map (cost_of (exact_ops (\<lambda>x. []))) (quoted fetch_exact (portfolio st_exact))))
   = Fin 100" .
  have null: "\<exists>pq \<in> set (quoted fetch_cents (portfolio st_null_price)). null_figure pq"
    by (simp add: quoted_def quoted_from_def st_null_price_def fetch_cents_def null_figure_def)
  from valuation_rows_and_totals
         [of ?ops fetch_cents st_null_price _ _ _ fetch_cents st_null_price "\<lambda>x. []"] null
  have raises: "calculatePortfolio ?ops fetch_cents st_null_price = Inl TypeError"
    by blast
  from run total d exact null raises show ?thesis by (intro conjI)
qed

text \<open>
  The claim as stated fails in binary64. For 100 shares bought at 0.12 and quoted at
  0.752 together with 3 shares bought at 0.943 and quoted at 0.328, the \<open>totalProfit\<close>
  returned is "61.35", while the sum of the two profits formats to "61.36". For a
  portfolio whose purchase price has been saved as \<open>null\<close>, the valuation raises a
  \<open>TypeError\<close> and returns no row and no total.
\<close>

theorem valuation_rows_and_totals_counterexample:
  "calculatePortfolio (binary64_ops (\<lambda>x. [])) fetch_cents st_cents =
     Inr \<lparr>positions =
            [\<lparr>row_symbol = ''sh600000'', row_name = [], row_shares = JNumber (DNum 100),
          row_purchasePrice = ''0.12'', row_currentPrice = ''0.75'',
          row_todayChange = ''1.00%'', row_value = ''75.20'', row_profit = ''63.20'',
          row_return = ''526.67%''\<rparr>,
         \<lparr>row_symbol = ''sz000001'', row_name = [], row_shares = JNumber (DNum 3),
          row_purchasePrice = ''0.94'', row_currentPrice = ''0.33'',
          row_todayChange = ''1.00%'', row_value = ''0.98'', row_profit = ''-1.84'',
          row_return = ''-65.22%''\<rparr>],
          summary =
            \<lparr>totalValue = ''76.18'', totalCost = ''14.83'',
            totalProfit = ''61.35'', totalReturn = ''413.75''\<rparr>\<rparr> \<and>
   num_toFixed (binary64_ops (\<lambda>x. []))
     (sum_from (binary64_ops (\<lambda>x. []))
        (map (profit_of (binary64_ops (\<lambda>x. [])))
           (quoted fetch_cents (portfolio st_cents)))) = Inr ''61.36'' \<and>
   calculatePortfolio (binary64_ops (\<lambda>x. [])) fetch_cents st_null_price = Inl TypeError"
proof -
  let ?ops = "binary64_ops (\<lambda>x. [])"
  let ?pq1 =
      "(\<lparr>symbol = ''sh600000'', name = [], shares = JNumber (DNum 100),
         purchasePrice = JNumber (DNum (1080863910568919 / 9007199254740992)), dateAdded = ''t0'', dateModified = None\<rparr>,
        \<lparr>quote_close = JNumber (DNum (3386706919782613 / 4503599627370496)), quote_changePercent = JNumber (DNum 1)\<rparr>)"
  let ?pq2 =
      "(\<lparr>symbol = ''sz000001'', name = [], shares = JNumber (DNum 3),
         purchasePrice = JNumber (DNum (8493788897220755 / 9007199254740992)), dateAdded = ''t1'', dateModified = None\<rparr>,
        \<lparr>quote_close = JNumber (DNum (5908722711110091 / 18014398509481984)), quote_changePercent = JNumber (DNum 1)\<rparr>)"
  have q: "quoted fetch_cents (portfolio st_cents) = [?pq1, ?pq2]"
    by (simp add: quoted_def quoted_from_def st_cents_def fetch_cents_def upt_conv_Cons literals)
  have c1: "cost_of ?ops ?pq1 = JNumber (DNum 12)"
    by (simp add: cost_of_def binary64_eval)
  have v1: "value_of ?ops ?pq1 = JNumber (DNum (5291729562160333 / 70368744177664))"
    by (simp add: value_of_def binary64_eval)
  have p1: "profit_of ?ops ?pq1 = JNumber (DNum (4447304632028365 / 70368744177664))"
    unfolding profit_of_def c1 v1 by (simp add: binary64_eval)
  have d1: "num_div ?ops (JNumber (DNum (4447304632028365 / 70368744177664))) (JNumber (DNum 12)) = JNumber (DNum (5929739509371153 / 1125899906842624))"
    by (simp add: binary64_eval)
  have r1: "returnPct_of ?ops ?pq1 = JNumber (DNum (4632608991696213 / 8796093022208))"
    unfolding returnPct_of_def p1 c1 d1 by (simp add: binary64_eval)
  have row1: "row_of ?ops ?pq1 =
      Inr \<lparr>row_symbol = ''sh600000'', row_name = [], row_shares = JNumber (DNum 100),
          row_purchasePrice = ''0.12'', row_currentPrice = ''0.75'',
          row_todayChange = ''1.00%'', row_value = ''75.20'', row_profit = ''63.20'',
          row_return = ''526.67%''\<rparr>"
    unfolding row_of_def v1 p1 r1 by (simp add: binary64_eval)
  have tv1: "num_add ?ops (JNumber (DNum 0)) (JNumber (DNum (5291729562160333 / 70368744177664))) = JNumber (DNum (5291729562160333 / 70368744177664))"
    by (simp add: binary64_eval)
  have tc1: "num_add ?ops (JNumber (DNum 0)) (JNumber (DNum 12)) = JNumber (DNum 12)"
    by (simp add: binary64_eval)
  have sp1: "num_add ?ops (JNumber (DNum 0)) (JNumber (DNum (4447304632028365 / 70368744177664))) = JNumber (DNum (4447304632028365 / 70368744177664))"
    by (simp add: binary64_eval)
  have c2: "cost_of ?ops ?pq2 = JNumber (DNum (3185170836457783 / 1125899906842624))"
    by (simp add: cost_of_def binary64_eval)
  have v2: "value_of ?ops ?pq2 = JNumber (DNum (553942754166571 / 562949953421312))"
    by (simp add: value_of_def binary64_eval)
  have p2: "profit_of ?ops ?pq2 = JNumber (DNum (- (2077285328124641 / 1125899906842624)))"
    unfolding profit_of_def c2 v2 by (simp add: binary64_eval)
  have d2: "num_div ?ops (JNumber (DNum (- (2077285328124641 / 1125899906842624)))) (JNumber (DNum (3185170836457783 / 1125899906842624))) = JNumber (DNum (- (2937130191763367 / 4503599627370496)))"
    by (simp add: binary64_eval)
  have r2: "returnPct_of ?ops ?pq2 = JNumber (DNum (- (4589265924630261 / 70368744177664)))"
    unfolding returnPct_of_def p2 c2 d2 by (simp add: binary64_eval)
  have row2: "row_of ?ops ?pq2 =
      Inr \<lparr>row_symbol = ''sz000001'', row_name = [], row_shares = JNumber (DNum 3),
          row_purchasePrice = ''0.94'', row_currentPrice = ''0.33'',
          row_todayChange = ''1.00%'', row_value = ''0.98'', row_profit = ''-1.84'',
          row_return = ''-65.22%''\<rparr>"
    unfolding row_of_def v2 p2 r2 by (simp add: binary64_eval)
  have tv2: "num_add ?ops (JNumber (DNum (5291729562160333 / 70368744177664))) (JNumber (DNum (553942754166571 / 562949953421312))) = JNumber (DNum (2680486203215577 / 35184372088832))"
    by (simp add: binary64_eval)
  have tc2: "num_add ?ops (JNumber (DNum 12)) (JNumber (DNum (3185170836457783 / 1125899906842624))) = JNumber (DNum (2086996214821159 / 140737488355328))"
    by (simp add: binary64_eval)
  have sp2: "num_add ?ops (JNumber (DNum (4447304632028365 / 70368744177664))) (JNumber (DNum (- (2077285328124641 / 1125899906842624)))) = JNumber (DNum (4317474299020575 / 70368744177664))"
    by (simp add: binary64_eval)
  have zero: "num_zero ?ops = JNumber (DNum 0)"
    by (simp add: binary64_ops_def)
  have sum_values: "sum_from ?ops (map (value_of ?ops) [?pq1, ?pq2]) = JNumber (DNum (2680486203215577 / 35184372088832))"
    unfolding sum_from_def list.map foldl.simps zero v1 v2 tv1 tv2 by simp
  have sum_costs: "sum_from ?ops (map (cost_of ?ops) [?pq1, ?pq2]) = JNumber (DNum (2086996214821159 / 140737488355328))"
    unfolding sum_from_def list.map foldl.simps zero c1 c2 tc1 tc2 by simp
  have sum_profits: "sum_from ?ops (map (profit_of ?ops) [?pq1, ?pq2]) = JNumber (DNum (4317474299020575 / 70368744177664))"
    unfolding sum_from_def list.map foldl.simps zero p1 p2 sp1 sp2 by simp
  have difference: "num_sub ?ops (JNumber (DNum (2680486203215577 / 35184372088832))) (JNumber (DNum (2086996214821159 / 140737488355328))) = JNumber (DNum (8634948598041149 / 140737488355328))"
    by (simp add: binary64_eval)
  have quotient: "num_div ?ops (JNumber (DNum (8634948598041149 / 140737488355328))) (JNumber (DNum (2086996214821159 / 140737488355328))) = JNumber (DNum (4658411813630669 / 1125899906842624))"
    by (simp add: binary64_eval)
  have percent: "num_mul ?ops (JNumber (DNum (4658411813630669 / 1125899906842624))) (num_hundred ?ops) = JNumber (DNum (227461514337435 / 549755813888))"
    by (simp add: binary64_eval)
  have summary_eq: "summary_of ?ops [?pq1, ?pq2] =
      Inr \<lparr>totalValue = ''76.18'', totalCost = ''14.83'',
            totalProfit = ''61.35'', totalReturn = ''413.75''\<rparr>"
    unfolding summary_of_def Let_def sum_values sum_costs difference quotient percent
    by (simp add: binary64_eval)
  have rows_eq: "rows_of ?ops [?pq1, ?pq2] =
      Inr [\<lparr>row_symbol = ''sh600000'', row_name = [], row_shares = JNumber (DNum 100),
          row_purchasePrice = ''0.12'', row_currentPrice = ''0.75'',
          row_todayChange = ''1.00%'', row_value = ''75.20'', row_profit = ''63.20'',
          row_return = ''526.67%''\<rparr>,
         \<lparr>row_symbol = ''sz000001'', row_name = [], row_shares = JNumber (DNum 3),
          row_purchasePrice = ''0.94'', row_currentPrice = ''0.33'',
          row_todayChange = ''1.00%'', row_value = ''0.98'', row_profit = ''-1.84'',
          row_return = ''-65.22%''\<rparr>]"
    unfolding rows_of.simps row1 row2 by simp
  have valuation: "valuation_of ?ops (quoted fetch_cents (portfolio st_cents)) =
      Inr \<lparr>positions =
            [\<lparr>row_symbol = ''sh600000'', row_name = [], row_shares = JNumber (DNum 100),
          row_purchasePrice = ''0.12'', row_currentPrice = ''0.75'',
          row_todayChange = ''1.00%'', row_value = ''75.20'', row_profit = ''63.20'',
          row_return = ''526.67%''\<rparr>,
         \<lparr>row_symbol = ''sz000001'', row_name = [], row_shares = JNumber (DNum 3),
          row_purchasePrice = ''0.94'', row_currentPrice = ''0.33'',
          row_todayChange = ''1.00%'', row_value = ''0.98'', row_profit = ''-1.84'',
          row_return = ''-65.22%''\<rparr>],
          summary =
            \<lparr>totalValue = ''76.18'', totalCost = ''14.83'',
            totalProfit = ''61.35'', totalReturn = ''413.75''\<rparr>\<rparr>"
    unfolding q valuation_of_def rows_eq summary_eq by simp
  have run: "calculatePortfolio ?ops fetch_cents st_cents =
     Inr \<lparr>positions =
            [\<lparr>row_symbol = ''sh600000'', row_name = [], row_shares = JNumber (DNum 100),
          row_purchasePrice = ''0.12'', row_currentPrice = ''0.75'',
          row_todayChange = ''1.00%'', row_value = ''75.20'', row_profit = ''63.20'',
          row_return = ''526.67%''\<rparr>,
         \<lparr>row_symbol = ''sz000001'', row_name = [], row_shares = JNumber (DNum 3),
          row_purchasePrice = ''0.94'', row_currentPrice = ''0.33'',
          row_todayChange = ''1.00%'', row_value = ''0.98'', row_profit = ''-1.84'',
          row_return = ''-65.22%''\<rparr>],
          summary =
            \<lparr>totalValue = ''76.18'', totalCost = ''14.83'',
            totalProfit = ''61.35'', totalReturn = ''413.75''\<rparr>\<rparr>"
    unfolding calculatePortfolio_valuation_of by (rule valuation)
  have sum_of_profits: "num_toFixed ?ops
     (sum_from ?ops (map (profit_of ?ops) (quoted fetch_cents (portfolio st_cents))))
       = Inr ''61.36''"
    unfolding q sum_profits by (simp add: binary64_eval)
  have null_price: "calculatePortfolio ?ops fetch_cents st_null_price = Inl TypeError"
    by (simp add: calculatePortfolio_def st_null_price_def fetch_cents_def binary64_eval)
  from run sum_of_profits null_price show ?thesis by simp
qed

end
